theory Spec2Isabelle
  imports Complex_Main "HOL-Library.Word" "HOL-Library.Signed_Division"
begin

section \<open>Fluid Wall: the sensor-driven injection layer of fluidWall.cpp\<close>

text \<open>
  The development embeds the functions of \<^verbatim>\<open>src/fluidWall/fluidWall.cpp\<close> that
  translate the silhouette image, the optical flow and the splash emitters into calls on
  the fluid solver, together with the mode switcher and the multi-user colour blend.

  Conventions of the embedding:
  \<^item> C++ \<^verbatim>\<open>int\<close> is a 32-bit two's complement integer, held in an \<open>int\<close>. The
    increments and the subtraction that the source applies to counters and emitter fields
    wrap around (\<open>int32\<close>), as the machine's instructions do where C++ leaves the
    overflow undefined. Integer division truncates towards zero (\<open>sdiv\<close>); it is a fault
    when the divisor is zero and when \<open>INT_MIN\<close> is divided by \<open>-1\<close>. Loop indices run
    between bounds that are themselves 32-bit values; a loop \<^verbatim>\<open>x <= hi\<close> is embedded
    exactly when \<open>hi\<close> is below \<open>INT_MAX\<close> (at \<open>INT_MAX\<close> its counter would wrap).
  \<^item> C++ \<^verbatim>\<open>float\<close> is \<open>real\<close>: rounding is not modelled. Converting a float to
    \<^verbatim>\<open>int\<close> truncates towards zero; a value whose truncation is outside the 32-bit
    range, for which C++ leaves the conversion undefined, converts to \<open>INT_MIN\<close> as the
    x86 conversion instructions do (\<open>float_to_int\<close>).
  \<^item> \<^verbatim>\<open>uchar\<close> is \<open>8 word\<close>.
  \<^item> a \<^verbatim>\<open>cv::Mat\<close> is its size and its element function, read as
    \<^verbatim>\<open>m.at(row, col)\<close>; an empty matrix (\<^verbatim>\<open>data == NULL\<close>) is \<open>None\<close>.
  \<^item> a \<^verbatim>\<open>cv::Point2f\<close> is a pair: \<open>fst\<close> is \<^verbatim>\<open>.x\<close>, \<open>snd\<close> is \<^verbatim>\<open>.y\<close>.
  \<^item> the global variables are the fields of the record \<open>world\<close>; a function that
    assigns to them takes the world and returns the new one.
  \<^item> a counted \<^verbatim>\<open>for\<close> loop is a \<open>fold\<close> over the list of its index values, in
    the order the loop visits them.
\<close>

subsection \<open>Data\<close>

type_synonym cell = "int \<times> int"

type_synonym Point2f = "real \<times> real"

type_synonym uchar = "8 word"

record 'a Mat =
  rows :: int
  cols :: int
  mat_at :: "int \<Rightarrow> int \<Rightarrow> 'a"

text \<open>\<^verbatim>\<open>typedef struct { Point2f center; Point2f vel; int lifespan, life_elapsed;
  int radius; int userNo; } Emitter;\<close>\<close>

record Emitter =
  center :: Point2f
  vel :: Point2f
  lifespan :: int
  life_elapsed :: int
  radius :: int
  userNo :: int

text \<open>
  The faults the modelled functions can raise, both from the integer division: a zero
  divisor, and the quotient \<open>INT_MIN / -1\<close> that does not fit.
\<close>

datatype fault = DivideByZero | DivideOverflow

definition INT_MIN :: int where
  "INT_MIN = - (2 ^ 31)"

definition INT_MAX :: int where
  "INT_MAX = 2 ^ 31 - 1"

text \<open>The 32-bit value an integer result is stored as: two's complement wrap-around.\<close>

definition int32 :: "int \<Rightarrow> int" where
  "int32 v = (v + 2 ^ 31) mod 2 ^ 32 - 2 ^ 31"

text \<open>
  A float stored into an \<^verbatim>\<open>int\<close>: truncation towards zero where the result fits,
  \<open>INT_MIN\<close> where it does not.
\<close>

definition float_to_int :: "real \<Rightarrow> int" where
  "float_to_int r =
     (let t = (if 0 \<le> r then \<lfloor>r\<rfloor> else \<lceil>r\<rceil>)
      in if INT_MIN \<le> t \<and> t \<le> INT_MAX then t else INT_MIN)"

subsection \<open>The solver engine\<close>

text \<open>
  Modelled from the spec: the classes \<^verbatim>\<open>FluidSolver\<close> and \<^verbatim>\<open>FluidSolverMultiUser\<close>
  (\<^verbatim>\<open>FluidSolver.h\<close>, \<^verbatim>\<open>FluidSolverMultiUser.h\<close>) are not among the sources. Section 6
  of the specification gives their contract: a grid of cells, each with a boundary flag,
  a horizontal and a vertical velocity and a density (one density per user slot in the
  multi-user variant); the \<^verbatim>\<open>add...\<close> calls add to the addressed cell, \<^verbatim>\<open>setBoundAt\<close>
  stores the flag that \<^verbatim>\<open>isBoundAt\<close> reads, and \<^verbatim>\<open>reset\<close> zeroes all fields. Cells are
  addressed by their grid coordinates, the interior being \<open>1..N\<close> on both axes, as
  \<^verbatim>\<open>getForcesFromMouse\<close> uses the calls. The multi-user solver is used through a
  \<^verbatim>\<open>FluidSolver*\<close>, so it contains the single-user fields as its base part.
\<close>

record FluidSolver =
  bounds :: "cell \<Rightarrow> bool"
  horzVelocity :: "cell \<Rightarrow> real"
  vertVelocity :: "cell \<Rightarrow> real"
  densityGrid :: "cell \<Rightarrow> real"

record FluidSolverMultiUser =
  base :: FluidSolver
  userDensity :: "int \<Rightarrow> cell \<Rightarrow> real"

definition setBoundAt :: "int \<Rightarrow> int \<Rightarrow> bool \<Rightarrow> FluidSolver \<Rightarrow> FluidSolver" where
  "setBoundAt x y isBound s = s\<lparr>bounds := (bounds s)((x, y) := isBound)\<rparr>"

definition isBoundAt :: "int \<Rightarrow> int \<Rightarrow> FluidSolver \<Rightarrow> bool" where
  "isBoundAt x y s = bounds s (x, y)"

definition addHorzVelocityAt :: "int \<Rightarrow> int \<Rightarrow> real \<Rightarrow> FluidSolver \<Rightarrow> FluidSolver" where
  "addHorzVelocityAt x y d s =
     s\<lparr>horzVelocity := (horzVelocity s)((x, y) := horzVelocity s (x, y) + d)\<rparr>"

definition addVertVelocityAt :: "int \<Rightarrow> int \<Rightarrow> real \<Rightarrow> FluidSolver \<Rightarrow> FluidSolver" where
  "addVertVelocityAt x y d s =
     s\<lparr>vertVelocity := (vertVelocity s)((x, y) := vertVelocity s (x, y) + d)\<rparr>"

definition addDensityAt :: "int \<Rightarrow> int \<Rightarrow> real \<Rightarrow> FluidSolver \<Rightarrow> FluidSolver" where
  "addDensityAt x y d s =
     s\<lparr>densityGrid := (densityGrid s)((x, y) := densityGrid s (x, y) + d)\<rparr>"

definition getDensityAt :: "int \<Rightarrow> int \<Rightarrow> FluidSolver \<Rightarrow> real" where
  "getDensityAt x y s = densityGrid s (x, y)"

definition reset :: "FluidSolver \<Rightarrow> FluidSolver" where
  "reset s = \<lparr>bounds = (\<lambda>c. False), horzVelocity = (\<lambda>c. 0), vertVelocity = (\<lambda>c. 0),
     densityGrid = (\<lambda>c. 0)\<rparr>"

definition addUserDensityAt ::
  "int \<Rightarrow> int \<Rightarrow> int \<Rightarrow> real \<Rightarrow> FluidSolverMultiUser \<Rightarrow> FluidSolverMultiUser" where
  "addUserDensityAt user x y d s =
     s\<lparr>userDensity := (userDensity s)(user := (userDensity s user)((x, y) :=
        userDensity s user (x, y) + d))\<rparr>"

definition getUserDensityAt :: "int \<Rightarrow> int \<Rightarrow> int \<Rightarrow> FluidSolverMultiUser \<Rightarrow> real" where
  "getUserDensityAt user x y s = userDensity s user (x, y)"

definition resetMultiUser :: "FluidSolverMultiUser \<Rightarrow> FluidSolverMultiUser" where
  "resetMultiUser s = \<lparr>base = reset (base s), userDensity = (\<lambda>user c. 0)\<rparr>"

subsection \<open>Loops over grid cells\<close>

text \<open>
  The cells \<open>(x, y)\<close> that
  \<^verbatim>\<open>for (y = ylo; y <= yhi; y++) for (x = xlo; x <= xhi; x++)\<close> visits, in that order.
\<close>

definition loopCells :: "int \<Rightarrow> int \<Rightarrow> int \<Rightarrow> int \<Rightarrow> cell list" where
  "loopCells xlo xhi ylo yhi = concat (map (\<lambda>y. map (\<lambda>x. (x, y)) [xlo..xhi]) [ylo..yhi])"

subsection \<open>Boundary mapper\<close>

text \<open>
  The body of the pixel loops of \<^verbatim>\<open>defineBoundsFromImage\<close> for column \<open>x\<close> and row
  \<open>y\<close>: the pixel is \<^verbatim>\<open>img.at<uchar>(y, x)\<close>, the cell written is \<open>(x, y)\<close>.
\<close>

definition boundFromPixel :: "uchar Mat \<Rightarrow> cell \<Rightarrow> FluidSolver \<Rightarrow> FluidSolver" where
  "boundFromPixel img = (\<lambda>(x, y) s.
     let pixelVal = mat_at img y x
     in if pixelVal > 0 then setBoundAt x y True s else setBoundAt x y False s)"

text \<open>
  \<^verbatim>\<open>defineBoundsFromImage(FluidSolver* flSolver, Mat &img)\<close>:
  \<^verbatim>\<open>for (y = 0; y < img.rows; y++) for (x = 0; x < img.cols; x++)\<close>. The function
  touches the solver it is given and nothing else.
\<close>

definition defineBoundsFromImage :: "FluidSolver \<Rightarrow> uchar Mat \<Rightarrow> FluidSolver" where
  "defineBoundsFromImage flSolver img =
     fold (boundFromPixel img) (loopCells 0 (cols img - 1) 0 (rows img - 1)) flSolver"

subsection \<open>Global variables\<close>

text \<open>
  \<^verbatim>\<open>FluidSolver* flSolver\<close> always points to one of the two global solver objects
  (\<^verbatim>\<open>drawFunction\<close> chooses by \<^verbatim>\<open>useUserSolver\<close>); \<open>UserSolverPtr\<close> denotes the base
  part of \<^verbatim>\<open>userSolver\<close>.
\<close>

datatype solverRef = SolverPtr | UserSolverPtr

record world =
  N :: int
  force :: real
  source :: real
  useFlow :: bool
  emitters :: "Emitter list"
  solver :: FluidSolver
  userSolver :: FluidSolverMultiUser
  useUserSolver :: bool
  usersMatrixResize :: "uchar Mat"
  flow :: "Point2f Mat"
  flowImg :: "uchar Mat option"
  prevFlowImg :: "uchar Mat option"
  dvel :: bool
  dbound :: bool
  dusers :: bool
  autoChangeMode :: bool
  useWhiteBackground :: bool
  mode :: int
  iterations :: int
  cout :: "string list"

text \<open>
  Constants of the file. \<^verbatim>\<open>MAX_EMITTERS\<close>, \<^verbatim>\<open>max_mode\<close> and
  \<^verbatim>\<open>iterations_per_mode\<close> are declared as variables, but no statement of the file
  assigns to them after their initialisation.
\<close>

definition N_DEF :: int where "N_DEF = 128"

definition FLOW_SCALAR :: real where "FLOW_SCALAR = 1 / 10"

definition NUM_SPLASH_ROWS :: int where "NUM_SPLASH_ROWS = 80"

definition MAX_USERS :: int where "MAX_USERS = 6"

definition MAX_EMITTERS :: int where "MAX_EMITTERS = 200"

definition max_mode :: int where "max_mode = 0"

definition iterations_per_mode :: int where "iterations_per_mode = 500"

definition deref :: "solverRef \<Rightarrow> world \<Rightarrow> FluidSolver" where
  "deref p w = (case p of SolverPtr \<Rightarrow> solver w | UserSolverPtr \<Rightarrow> base (userSolver w))"

definition onSolver :: "solverRef \<Rightarrow> (FluidSolver \<Rightarrow> FluidSolver) \<Rightarrow> world \<Rightarrow> world" where
  "onSolver p f w =
     (case p of
        SolverPtr \<Rightarrow> w\<lparr>solver := f (solver w)\<rparr>
      | UserSolverPtr \<Rightarrow> w\<lparr>userSolver := (userSolver w)\<lparr>base := f (base (userSolver w))\<rparr>\<rparr>)"

subsection \<open>Clearing and allocation\<close>

text \<open>\<^verbatim>\<open>clearData\<close>: reset the solver in use, then \<^verbatim>\<open>emitters.clear()\<close>.\<close>

definition clearData :: "world \<Rightarrow> world" where
  "clearData w =
     (if useUserSolver w then w\<lparr>userSolver := resetMultiUser (userSolver w)\<rparr>
      else w\<lparr>solver := reset (solver w)\<rparr>)\<lparr>emitters := []\<rparr>"

text \<open>
  The emitter that \<^verbatim>\<open>allocateData\<close> pushes \<^verbatim>\<open>MAX_EMITTERS\<close> times:
  \<^verbatim>\<open>{Point(0, 0), Point2f(0, 0), 1, 2, 1, 0}\<close>.
\<close>

definition placeholderEmitter :: Emitter where
  "placeholderEmitter = \<lparr>center = (0, 0), vel = (0, 0), lifespan = 1, life_elapsed = 2,
     radius = 1, userNo = 0\<rparr>"

text \<open>
  The part of \<^verbatim>\<open>allocateData\<close> that concerns the modelled state: fresh solvers, the
  placeholder emitters appended to the vector, \<^verbatim>\<open>N = N_DEF\<close>, a zero flow matrix and
  \<^verbatim>\<open>useFlow = true\<close>. (The sensor controller it also constructs is not modelled.)
\<close>

definition allocateData :: "world \<Rightarrow> world" where
  "allocateData w =
     w\<lparr>solver := reset (solver w),
       userSolver := resetMultiUser (userSolver w),
       emitters := emitters w @ replicate (nat MAX_EMITTERS) placeholderEmitter,
       N := N_DEF,
       flow := \<lparr>rows = N_DEF, cols = N_DEF, mat_at = (\<lambda>r c. (0, 0))\<rparr>,
       useFlow := True\<rparr>"

subsection \<open>Flow force translator\<close>

text \<open>
  The body of the loop nest of \<^verbatim>\<open>computeOpticalFlow\<close> at cell \<open>(x, y)\<close>: the flow
  vector is read at row \<open>y\<close>, column \<open>x\<close>.
\<close>

definition flowForceAt :: "Point2f Mat \<Rightarrow> cell \<Rightarrow> FluidSolver \<Rightarrow> FluidSolver" where
  "flowForceAt fl = (\<lambda>(x, y) s.
     let fxy = mat_at fl y x
     in addVertVelocityAt x y (FLOW_SCALAR * snd fxy)
          (addHorzVelocityAt x y (FLOW_SCALAR * fst fxy) s))"

text \<open>
  \<^verbatim>\<open>computeOpticalFlow(FluidSolver* flSolver, Mat& flow)\<close>. The estimator
  \<^verbatim>\<open>calcOpticalFlowFarneback\<close> is external: it is the parameter \<open>farneback\<close>, which
  gives the new flow matrix from the previous and the current frame. When a previous
  frame exists the loops run \<^verbatim>\<open>for (y = 1; y < N; y++) for (x = 1; x < N; x++)\<close>; in
  either case the two frames are swapped at the end.
\<close>

definition computeOpticalFlow ::
  "(uchar Mat \<Rightarrow> uchar Mat option \<Rightarrow> Point2f Mat) \<Rightarrow> solverRef \<Rightarrow> world \<Rightarrow> world" where
  "computeOpticalFlow farneback flSolver w =
     (let w1 = (case prevFlowImg w of
                  None \<Rightarrow> w
                | Some prev \<Rightarrow>
                    (let fl = farneback prev (flowImg w)
                     in onSolver flSolver
                          (fold (flowForceAt fl) (loopCells 1 (N w - 1) 1 (N w - 1)))
                          (w\<lparr>flow := fl\<rparr>)))
      in w1\<lparr>prevFlowImg := flowImg w1, flowImg := prevFlowImg w1\<rparr>)"

subsection \<open>Splash emitters\<close>

text \<open>
  \<^verbatim>\<open>bool emitterHasExpired = (e[i].lifespan - e[i].life_elapsed == 0);\<close>
\<close>

definition emitterHasExpired :: "Emitter \<Rightarrow> bool" where
  "emitterHasExpired e = (int32 (lifespan e - life_elapsed e) = 0)"

text \<open>
  \<^verbatim>\<open>float lifescalar = (e[i].lifespan - e[i].life_elapsed) / e[i].lifespan;\<close>
  Both operands are \<^verbatim>\<open>int\<close>: the quotient is an integer division, converted to float
  afterwards.
\<close>

definition lifescalar :: "Emitter \<Rightarrow> fault + real" where
  "lifescalar e =
     (let d = int32 (lifespan e - life_elapsed e)
      in if lifespan e = 0 then Inl DivideByZero
         else if d = INT_MIN \<and> lifespan e = - 1 then Inl DivideOverflow
         else Inr (real_of_int (d sdiv lifespan e)))"

text \<open>
  The corners of the square of cells an emitter writes, clamped to \<open>1..N\<close>; each
  coordinate is a float expression stored into an \<^verbatim>\<open>int\<close>.
\<close>

definition lowerCoord :: "Emitter \<Rightarrow> cell" where
  "lowerCoord e =
     (if fst (center e) - real_of_int (radius e) < 1 then 1
      else float_to_int (fst (center e) - real_of_int (radius e)),
      if snd (center e) - real_of_int (radius e) < 1 then 1
      else float_to_int (snd (center e) - real_of_int (radius e)))"

definition upperCoord :: "int \<Rightarrow> Emitter \<Rightarrow> cell" where
  "upperCoord n e =
     (if fst (center e) + real_of_int (radius e) > real_of_int n then n
      else float_to_int (fst (center e) + real_of_int (radius e)),
      if snd (center e) + real_of_int (radius e) > real_of_int n then n
      else float_to_int (snd (center e) + real_of_int (radius e)))"

text \<open>The cells the two inner loops of \<^verbatim>\<open>renderEmitters\<close> visit for one emitter.\<close>

definition emitterCells :: "int \<Rightarrow> Emitter \<Rightarrow> cell list" where
  "emitterCells n e =
     loopCells (fst (lowerCoord e)) (fst (upperCoord n e))
       (snd (lowerCoord e)) (snd (upperCoord n e))"

text \<open>
  Falloff from the centre. (For radius 0 the C++ quotient is an infinity or a NaN and
  HOL's is 0; no statement below depends on the value in that case.)
\<close>

definition vscalar :: "Emitter \<Rightarrow> int \<Rightarrow> real" where
  "vscalar e y = \<bar>real_of_int y - snd (center e)\<bar> / real_of_int (radius e)"

definition uscalar :: "Emitter \<Rightarrow> int \<Rightarrow> real" where
  "uscalar e x = \<bar>real_of_int x - fst (center e)\<bar> / real_of_int (radius e)"

definition dscalar :: "Emitter \<Rightarrow> int \<Rightarrow> int \<Rightarrow> real" where
  "dscalar e x y = (vscalar e y + uscalar e x) / 2"

text \<open>
  The density one emitter injects at cell \<open>(x, y)\<close>:
  \<^verbatim>\<open>float density = source * dscalar * lifescalar;\<close>
\<close>

definition emitterDensity :: "real \<Rightarrow> Emitter \<Rightarrow> real \<Rightarrow> int \<Rightarrow> int \<Rightarrow> real" where
  "emitterDensity src e ls x y = src * dscalar e x y * ls"

text \<open>The body of the inner loops of \<^verbatim>\<open>renderEmitters\<close> at cell \<open>(x, y)\<close>.\<close>

definition injectCell :: "solverRef \<Rightarrow> Emitter \<Rightarrow> real \<Rightarrow> cell \<Rightarrow> world \<Rightarrow> world" where
  "injectCell flSolver e ls = (\<lambda>(x, y) w.
     let horzVel = fst (vel e) * uscalar e x;
         vertVel = snd (vel e) * vscalar e y;
         density = emitterDensity (source w) e ls x y;
         w1 = onSolver flSolver (addHorzVelocityAt x y horzVel) w;
         w2 = onSolver flSolver (addVertVelocityAt x y vertVel) w1
     in if useUserSolver w2
        then w2\<lparr>userSolver := addUserDensityAt (userNo e) x y density (userSolver w2)\<rparr>
        else onSolver flSolver (addDensityAt x y density) w2)"

definition injectEmitter :: "solverRef \<Rightarrow> Emitter \<Rightarrow> real \<Rightarrow> world \<Rightarrow> world" where
  "injectEmitter flSolver e ls w = fold (injectCell flSolver e ls) (emitterCells (N w) e) w"

text \<open>
  \<^verbatim>\<open>renderEmitters(FluidSolver* flSolver, vector<Emitter> &e)\<close>:
  \<^verbatim>\<open>int i = 0; while (i < e.size()) { ... }\<close>. An element with
  \<^verbatim>\<open>lifespan - life_elapsed == 0\<close> is erased and the index stays; any other element
  injects, has its \<^verbatim>\<open>life_elapsed\<close> incremented (\<^verbatim>\<open>e[i].life_elapsed++\<close>, a 32-bit
  increment), and the index moves on.
  \<open>renderEmittersFrom\<close> is the loop from index \<open>i\<close>; the result is the vector left and
  the new world, or the fault.
\<close>

function renderEmittersFrom ::
  "solverRef \<Rightarrow> nat \<Rightarrow> Emitter list \<Rightarrow> world \<Rightarrow> fault + (Emitter list \<times> world)" where
  "renderEmittersFrom flSolver i e w =
     (if i < length e
      then (if emitterHasExpired (e ! i)
            then renderEmittersFrom flSolver i (take i e @ drop (Suc i) e) w
            else (case lifescalar (e ! i) of
                    Inl f \<Rightarrow> Inl f
                  | Inr ls \<Rightarrow>
                      renderEmittersFrom flSolver (Suc i)
                        (e[i := (e ! i)\<lparr>life_elapsed := int32 (life_elapsed (e ! i) + 1)\<rparr>])
                        (injectEmitter flSolver (e ! i) ls w)))
      else Inr (e, w))"
  by pat_completeness auto
termination
  by (relation "measure (\<lambda>(flSolver, i, e, w). length e - i)") auto

declare renderEmittersFrom.simps [simp del]

definition renderEmitters ::
  "solverRef \<Rightarrow> Emitter list \<Rightarrow> world \<Rightarrow> fault + (Emitter list \<times> world)" where
  "renderEmitters flSolver e w = renderEmittersFrom flSolver 0 e w"

text \<open>
  The same pass as a recursion over the vector from front to back (every element is
  examined once): the form the proofs work with. \<open>renderEmitters_eq\<close> below shows that it
  is the loop.
\<close>

fun renderPass ::
  "solverRef \<Rightarrow> Emitter list \<Rightarrow> world \<Rightarrow> fault + (Emitter list \<times> world)" where
  "renderPass flSolver [] w = Inr ([], w)"
| "renderPass flSolver (e # es) w =
     (if emitterHasExpired e then renderPass flSolver es w
      else (case lifescalar e of
              Inl f \<Rightarrow> Inl f
            | Inr ls \<Rightarrow>
                (case renderPass flSolver es (injectEmitter flSolver e ls w) of
                   Inl f \<Rightarrow> Inl f
                 | Inr (es', w') \<Rightarrow>
                     Inr (e\<lparr>life_elapsed := int32 (life_elapsed e + 1)\<rparr> # es', w'))))"

text \<open>\<^verbatim>\<open>createEmitterAt\<close>: build the emitter and \<^verbatim>\<open>emitters.push_back\<close> it.\<close>

definition createEmitterAt ::
  "int \<Rightarrow> int \<Rightarrow> real \<Rightarrow> real \<Rightarrow> int \<Rightarrow> int \<Rightarrow> int \<Rightarrow> world \<Rightarrow> world" where
  "createEmitterAt center_x center_y force_u force_v lifespan' radius' userNo' w =
     w\<lparr>emitters := emitters w @
        [\<lparr>center = (real_of_int center_x, real_of_int center_y), vel = (force_u, force_v),
          lifespan = lifespan', life_elapsed = 0, radius = radius', userNo = userNo'\<rparr>]\<rparr>"

text \<open>\<^verbatim>\<open>int velocityEmissionThreshold = -0.05;\<close> The variable is an \<^verbatim>\<open>int\<close>.\<close>

definition velocityEmissionThreshold :: int where
  "velocityEmissionThreshold = float_to_int (- (5 / 100))"

text \<open>
  The body of the splash-row loops of \<^verbatim>\<open>emitSplashes\<close> at column \<open>i\<close>, row \<open>j\<close>.
  The flow vector is read with \<^verbatim>\<open>flow.at<Point2f>(i, j)\<close>.
\<close>

definition splashAt :: "solverRef \<Rightarrow> Point2f Mat \<Rightarrow> cell \<Rightarrow> world \<Rightarrow> world" where
  "splashAt flSolver flowM = (\<lambda>(i, j) w.
     if \<not> isBoundAt i j (deref flSolver w) \<and> isBoundAt i (j + 1) (deref flSolver w)
     then (let opticalFlowVelocity = mat_at flowM i j;
               fu = (8 / 10) * fst opticalFlowVelocity;
               fv = (8 / 10) * snd opticalFlowVelocity
           in if snd opticalFlowVelocity < real_of_int velocityEmissionThreshold
              then (if useUserSolver w
                    then createEmitterAt i (j - 1) fu fv 6 3
                           (uint (mat_at (usersMatrixResize w) i (j + 1))) w
                    else createEmitterAt i (j - 1) fu fv 6 3 1 w)
              else w)
     else w)"

text \<open>The body of the loops of the branch without optical flow.\<close>

definition edgeImpulseAt :: "solverRef \<Rightarrow> cell \<Rightarrow> world \<Rightarrow> world" where
  "edgeImpulseAt flSolver = (\<lambda>(i, j) w.
     let horzBoundChangesToYes =
           (\<not> isBoundAt i j (deref flSolver w) \<and> isBoundAt (i + 1) j (deref flSolver w));
         horzBoundChangesToNo =
           (isBoundAt i j (deref flSolver w) \<and> \<not> isBoundAt (i + 1) j (deref flSolver w))
     in if horzBoundChangesToYes
        then onSolver flSolver (addVertVelocityAt i j (force w * (1 / 10)))
               (onSolver flSolver (addHorzVelocityAt i j (force w * (- (5 / 100)))) w)
        else if horzBoundChangesToNo
        then onSolver flSolver (addVertVelocityAt (i + 1) j (force w * (1 / 10)))
               (onSolver flSolver (addHorzVelocityAt (i + 1) j (force w * (5 / 100))) w)
        else w)"

text \<open>
  \<^verbatim>\<open>emitSplashes(FluidSolver* flSolver, Mat &flow)\<close>. With optical flow the spawn
  pass runs \<^verbatim>\<open>for (j = 1; j < NUM_SPLASH_ROWS; j++) for (i = 1; i <= N; i++)\<close> and is
  followed by \<^verbatim>\<open>renderEmitters(flSolver, emitters)\<close>.
\<close>

definition spawnSplashes :: "solverRef \<Rightarrow> Point2f Mat \<Rightarrow> world \<Rightarrow> world" where
  "spawnSplashes flSolver flowM w =
     fold (splashAt flSolver flowM) (loopCells 1 (N w) 1 (NUM_SPLASH_ROWS - 1)) w"

definition emitSplashes :: "solverRef \<Rightarrow> Point2f Mat \<Rightarrow> world \<Rightarrow> fault + world" where
  "emitSplashes flSolver flowM w =
     (if useFlow w
      then (let w1 = spawnSplashes flSolver flowM w
            in case renderEmitters flSolver (emitters w1) w1 of
                 Inl f \<Rightarrow> Inl f
               | Inr (es, w2) \<Rightarrow> Inr (w2\<lparr>emitters := es\<rparr>))
      else Inr (fold (edgeImpulseAt flSolver) (loopCells 1 (N w) 1 (N w)) w))"

subsection \<open>Mode state machine\<close>

text \<open>
  \<^verbatim>\<open>changeMode(int newMode)\<close>: store the mode, \<^verbatim>\<open>clearData()\<close>, then the
  \<^verbatim>\<open>switch\<close> over the four modes (any other value falls through it).
\<close>

definition changeMode :: "int \<Rightarrow> world \<Rightarrow> world" where
  "changeMode newMode w =
     (let w1 = clearData (w\<lparr>mode := newMode\<rparr>)
      in if newMode = 0
         then w1\<lparr>source := 20, dvel := False, dbound := False, dusers := False,
                useFlow := True, useUserSolver := False, useWhiteBackground := False,
                cout := cout w1 @ [''Changing to mode 0: Single color density'']\<rparr>
         else if newMode = 1
         then w1\<lparr>source := 20, dvel := True, dbound := False, dusers := False,
                useFlow := False, useUserSolver := False, useWhiteBackground := False,
                cout := cout w1 @ [''Changing to mode 1: Vectors without optical flow'']\<rparr>
         else if newMode = 2
         then w1\<lparr>source := 20, dvel := False, dbound := False, dusers := True,
                useFlow := True, useUserSolver := True, useWhiteBackground := False,
                cout := cout w1 @ [''Changing to mode 2: Multi-color user emission'']\<rparr>
         else if newMode = 3
         then w1\<lparr>source := 20, dvel := False, dbound := False, dusers := False,
                useFlow := True, useUserSolver := True, useWhiteBackground := True,
                cout := cout w1 @ [''Changing to mode 3: White background'']\<rparr>
         else w1)"

text \<open>
  \<^verbatim>\<open>tryChangeMode\<close>, called once at the start of every frame by \<^verbatim>\<open>drawFunction\<close>.
  Nothing else in a frame assigns \<^verbatim>\<open>mode\<close>, \<^verbatim>\<open>iterations\<close> or
  \<^verbatim>\<open>autoChangeMode\<close>, so as far as these are concerned a tick is one call of it.
\<close>

definition tryChangeMode :: "world \<Rightarrow> world" where
  "tryChangeMode w =
     (if autoChangeMode w \<and> iterations w > iterations_per_mode
      then (let w1 = w\<lparr>iterations := 0\<rparr>;
                w2 = w1\<lparr>mode := int32 (mode w1 + 1)\<rparr>;
                w3 = (if mode w2 > max_mode then w2\<lparr>mode := 0\<rparr> else w2)
            in changeMode (mode w3) w3)
      else w\<lparr>iterations := int32 (iterations w + 1)\<rparr>)"

text \<open>
  \<^verbatim>\<open>key_func\<close>, restricted to the modelled state: the keys that drive the sensor or
  the window leave it as it is, and the escape key ends the process (\<open>None\<close>).
\<close>

definition show_bool :: "bool \<Rightarrow> string" where
  "show_bool b = (if b then ''1'' else ''0'')"

definition key_func :: "char \<Rightarrow> world \<Rightarrow> world option" where
  "key_func key w =
     (if key = CHR ''c'' \<or> key = CHR ''C'' then Some (clearData w)
      else if key = CHR 0x1B then None
      else if key = CHR ''f'' \<or> key = CHR ''F''
      then Some (w\<lparr>useFlow := \<not> useFlow w,
                   cout := cout w @ [''Optical Flow: '' @ show_bool (\<not> useFlow w)]\<rparr>)
      else if key = CHR ''v'' \<or> key = CHR ''V''
      then Some (w\<lparr>dvel := \<not> dvel w, cout := cout w @ [''Display Velocity'']\<rparr>)
      else if key = CHR ''b'' \<or> key = CHR ''B'' then Some (w\<lparr>dbound := \<not> dbound w\<rparr>)
      else if key = CHR ''1'' then Some (changeMode 0 w)
      else if key = CHR ''2'' then Some (changeMode 1 w)
      else if key = CHR ''3'' then Some (changeMode 2 w)
      else if key = CHR ''4'' then Some (changeMode 3 w)
      else if key = CHR ''0''
      then Some (w\<lparr>autoChangeMode := \<not> autoChangeMode w,
                   cout := cout w @ [''Auto Change Mode: '' @ show_bool (\<not> autoChangeMode w)]\<rparr>)
      else if key = CHR ''u'' \<or> key = CHR ''U''
      then Some (w\<lparr>dusers := \<not> dusers w,
                   cout := cout w @ [''Draw Users: '' @ show_bool (\<not> dusers w)]\<rparr>)
      else Some w)"

subsection \<open>Multi-user compositor\<close>

record RGBType =
  R :: real
  G :: real
  B :: real

definition Colors :: "real list list" where
  "Colors =
     [[0, 0, 0], [0, 1, 1], [5 / 10, 1, 0], [5 / 10, 5 / 10, 0], [0, 4 / 10, 6 / 10],
      [0, 1, 0], [1, 5 / 10, 0], [1, 1, 0], [1, 0, 0], [0, 5 / 10, 1], [1, 1, 5 / 10],
      [1, 1, 1]]"

definition ColorsWhiteBG :: "real list list" where
  "ColorsWhiteBG =
     [[2 / 100, 2 / 100, 2 / 100], [0, 1, 1], [5 / 10, 1, 0], [1, 5 / 10, 0], [0, 0, 1],
      [0, 1, 0], [1, 1, 0], [1, 0, 0], [0, 5 / 10, 1], [5 / 10, 0, 1], [1, 1, 5 / 10],
      [1, 1, 1]]"

text \<open>The palette \<^verbatim>\<open>getWeightedColor\<close> reads, chosen by \<^verbatim>\<open>useWhiteBackground\<close>.\<close>

definition palette :: "world \<Rightarrow> real list list" where
  "palette w = (if useWhiteBackground w then ColorsWhiteBG else Colors)"

text \<open>One round of the loop of \<^verbatim>\<open>getWeightedColor\<close>, for user slot \<open>i\<close>.\<close>

definition blendUser :: "int \<Rightarrow> int \<Rightarrow> world \<Rightarrow> int \<Rightarrow> RGBType \<Rightarrow> RGBType" where
  "blendUser x y w i acc =
     (let densityVal = getUserDensityAt i x y (userSolver w)
      in if useWhiteBackground w
         then \<lparr>R = R acc + ColorsWhiteBG ! nat i ! 0 * densityVal,
               G = G acc + ColorsWhiteBG ! nat i ! 1 * densityVal,
               B = B acc + ColorsWhiteBG ! nat i ! 2 * densityVal\<rparr>
         else \<lparr>R = R acc + Colors ! nat i ! 0 * densityVal,
               G = G acc + Colors ! nat i ! 1 * densityVal,
               B = B acc + Colors ! nat i ! 2 * densityVal\<rparr>)"

text \<open>\<^verbatim>\<open>getWeightedColor(int x, int y)\<close>: \<^verbatim>\<open>for (i = 0; i < MAX_USERS; i++)\<close>.\<close>

definition getWeightedColor :: "int \<Rightarrow> int \<Rightarrow> world \<Rightarrow> RGBType" where
  "getWeightedColor x y w =
     fold (blendUser x y w) [0..MAX_USERS - 1] \<lparr>R = 0, G = 0, B = 0\<rparr>"

subsection \<open>Repeated frames and observations\<close>

text \<open>
  \<open>renderTicks k\<close>: the emitter pass of \<open>k\<close> successive frames, each one working on
  the vector the frame before left, with no spawn in between.
\<close>

fun renderTicks ::
  "nat \<Rightarrow> solverRef \<Rightarrow> Emitter list \<Rightarrow> world \<Rightarrow> fault + (Emitter list \<times> world)" where
  "renderTicks 0 flSolver es w = Inr (es, w)"
| "renderTicks (Suc k) flSolver es w =
     (case renderEmitters flSolver es w of
        Inl f \<Rightarrow> Inl f
      | Inr (es', w') \<Rightarrow> renderTicks k flSolver es' w')"

text \<open>
  The value of the local \<^verbatim>\<open>density\<close> of \<^verbatim>\<open>renderEmitters\<close> for emitter \<open>e\<close> at cell
  \<open>(x, y)\<close>, from the emitter's own \<^verbatim>\<open>lifescalar\<close>.
\<close>

definition densityInjected :: "real \<Rightarrow> Emitter \<Rightarrow> int \<Rightarrow> int \<Rightarrow> fault + real" where
  "densityInjected src e x y =
     (case lifescalar e of Inl f \<Rightarrow> Inl f | Inr ls \<Rightarrow> Inr (emitterDensity src e ls x y))"



subsection \<open>Start-up state and concrete inputs\<close>

text \<open>
  The globals as their initialisers leave them (\<^verbatim>\<open>vector<Emitter> emitters(MAX_EMITTERS)\<close>
  holds 200 value-initialised emitters), and the state after the start-up sequence of
  \<^verbatim>\<open>main\<close>: \<^verbatim>\<open>allocateData(); clearData();\<close>
\<close>

definition startWorld :: world where
  "startWorld =
     \<lparr>N = 0, force = 5, source = 20, useFlow = False,
      emitters = replicate (nat MAX_EMITTERS)
        \<lparr>center = (0, 0), vel = (0, 0), lifespan = 0, life_elapsed = 0, radius = 0,
         userNo = 0\<rparr>,
      solver = \<lparr>bounds = (\<lambda>c. False), horzVelocity = (\<lambda>c. 0), vertVelocity = (\<lambda>c. 0),
        densityGrid = (\<lambda>c. 0)\<rparr>,
      userSolver = \<lparr>base = \<lparr>bounds = (\<lambda>c. False), horzVelocity = (\<lambda>c. 0),
        vertVelocity = (\<lambda>c. 0), densityGrid = (\<lambda>c. 0)\<rparr>, userDensity = (\<lambda>user c. 0)\<rparr>,
      useUserSolver = False,
      usersMatrixResize = \<lparr>rows = 0, cols = 0, mat_at = (\<lambda>r c. 0)\<rparr>,
      flow = \<lparr>rows = 0, cols = 0, mat_at = (\<lambda>r c. (0, 0))\<rparr>,
      flowImg = None, prevFlowImg = None,
      dvel = False, dbound = False, dusers = False,
      autoChangeMode = False, useWhiteBackground = False,
      mode = 0, iterations = 0, cout = []\<rparr>"

definition initWorld :: world where
  "initWorld = clearData (allocateData startWorld)"

text \<open>A 128 x 128 mask whose pixels are all 255.\<close>

definition fullMask :: "uchar Mat" where
  "fullMask = \<lparr>rows = 128, cols = 128, mat_at = (\<lambda>r c. 255)\<rparr>"

text \<open>
  The emitter of the specification's scenario, as \<^verbatim>\<open>createEmitterAt(64, 10, 1.0, -2.0,
  6, 3, 1)\<close> builds it.
\<close>

definition scenarioEmitter :: Emitter where
  "scenarioEmitter = \<lparr>center = (64, 10), vel = (1, - 2), lifespan = 6, life_elapsed = 0,
     radius = 3, userNo = 1\<rparr>"


text \<open>A flow matrix whose vectors all are \<open>(1/2, -1/100)\<close>: a slow upward drift.\<close>

definition driftFlow :: "Point2f Mat" where
  "driftFlow = \<lparr>rows = 128, cols = 128, mat_at = (\<lambda>r c. (1 / 2, - (1 / 100)))\<rparr>"

text \<open>The start-up world with one solid cell, \<open>(5, 11)\<close>.\<close>

definition oneSolidCell :: world where
  "oneSolidCell = initWorld\<lparr>solver := setBoundAt 5 11 True (solver initWorld)\<rparr>"

text \<open>A flow estimator that reports the vector \<open>(1, 1)\<close> everywhere.\<close>

definition unitFarneback :: "uchar Mat \<Rightarrow> uchar Mat option \<Rightarrow> Point2f Mat" where
  "unitFarneback prev cur = \<lparr>rows = 128, cols = 128, mat_at = (\<lambda>r c. (1, 1))\<rparr>"

text \<open>The start-up world in its second frame: both frame buffers hold an image.\<close>

definition secondFrame :: world where
  "secondFrame = initWorld\<lparr>flowImg := Some fullMask, prevFlowImg := Some fullMask\<rparr>"




text \<open>
  An emitter whose counter \<open>life_elapsed\<close> has reached \<open>INT_MAX\<close>, with the lifespan
  \<open>INT_MIN\<close> that the next increment wraps it around to.
\<close>

definition wrappingEmitter :: Emitter where
  "wrappingEmitter = \<lparr>center = (0, 0), vel = (0, 0), lifespan = INT_MIN,
     life_elapsed = INT_MAX, radius = 1, userNo = 0\<rparr>"

text \<open>The start-up world after the key \<^verbatim>\<open>'0'\<close> has switched automatic cycling on.\<close>

definition autoWorld :: world where
  "autoWorld = initWorld\<lparr>autoChangeMode := True\<rparr>"

text \<open>
  A multi-user world in which user slot 1 alone has density, \<open>1/2\<close> at cell \<open>(3, 4)\<close>.
\<close>

definition oneUserWorld :: world where
  "oneUserWorld =
     initWorld\<lparr>useUserSolver := True,
       userSolver := addUserDensityAt 1 3 4 (1 / 2) (userSolver initWorld)\<rparr>"

section \<open>Properties\<close>

subsection \<open>32-bit values\<close>

lemma int32_id: "INT_MIN \<le> v \<Longrightarrow> v \<le> INT_MAX \<Longrightarrow> int32 v = v"
  by (simp add: int32_def INT_MIN_def INT_MAX_def)

lemma int32_numeral [simp]:
  "int32 0 = 0" "int32 1 = 1" "int32 2 = 2" "int32 3 = 3" "int32 4 = 4" "int32 5 = 5"
  "int32 6 = 6" "int32 7 = 7" "int32 (- 1) = - 1"
  by (simp_all add: int32_def)






subsection \<open>Cells of a loop nest\<close>

lemma set_loopCells:
  "set (loopCells xlo xhi ylo yhi) = {(x, y). xlo \<le> x \<and> x \<le> xhi \<and> ylo \<le> y \<and> y \<le> yhi}"
  by (auto simp: loopCells_def)

lemma distinct_loopCells: "distinct (loopCells xlo xhi ylo yhi)"
proof -
  have "distinct (concat (map (\<lambda>y. map (\<lambda>x. (x, y)) xs) ys))"
    if "distinct xs" and "distinct ys" for xs ys :: "int list"
    using that by (induction ys) (auto simp: distinct_map inj_on_def)
  then show ?thesis
    by (simp add: loopCells_def)
qed

subsection \<open>Start-up state\<close>

lemma initWorld_fields [simp]:
  "iterations initWorld = 0" "mode initWorld = 0" "emitters initWorld = []"
  "N initWorld = 128" "source initWorld = 20" "useUserSolver initWorld = False"
  "cout initWorld = []" "autoChangeMode initWorld = False" "useFlow initWorld = True"
  by (simp_all add: initWorld_def allocateData_def startWorld_def N_DEF_def clearData_def)

lemma initWorld_solver [simp]:
  "solver initWorld = \<lparr>bounds = (\<lambda>c. False), horzVelocity = (\<lambda>c. 0),
     vertVelocity = (\<lambda>c. 0), densityGrid = (\<lambda>c. 0)\<rparr>"
  by (simp add: initWorld_def allocateData_def startWorld_def clearData_def reset_def)

lemma initWorld_userSolver [simp]:
  "userDensity (userSolver initWorld) = (\<lambda>user c. 0)"
  by (simp add: initWorld_def allocateData_def startWorld_def clearData_def resetMultiUser_def)

lemma allocateData_pool: "length (emitters (allocateData startWorld)) = 400"
  by (simp add: allocateData_def startWorld_def MAX_EMITTERS_def)

subsection \<open>Boundary mapper\<close>

lemma boundFromPixel_bounds:
  "bounds (boundFromPixel img c s) c' =
     (if c' = c then 0 < mat_at img (snd c) (fst c) else bounds s c')"
  by (cases c) (simp add: boundFromPixel_def setBoundAt_def Let_def)

lemma boundFromPixel_frame:
  "horzVelocity (boundFromPixel img c s) = horzVelocity s"
  "vertVelocity (boundFromPixel img c s) = vertVelocity s"
  "densityGrid (boundFromPixel img c s) = densityGrid s"
  by (cases c; simp add: boundFromPixel_def setBoundAt_def Let_def)+

lemma fold_boundFromPixel_bounds:
  "bounds (fold (boundFromPixel img) cs s) c =
     (if c \<in> set cs then 0 < mat_at img (snd c) (fst c) else bounds s c)"
  by (induction cs arbitrary: s) (auto simp: boundFromPixel_bounds)

lemma fold_boundFromPixel_frame:
  "horzVelocity (fold (boundFromPixel img) cs s) = horzVelocity s"
  "vertVelocity (fold (boundFromPixel img) cs s) = vertVelocity s"
  "densityGrid (fold (boundFromPixel img) cs s) = densityGrid s"
  by (induction cs arbitrary: s; simp add: boundFromPixel_frame)+

text \<open>
  What the mapper does: cell \<open>(x, y)\<close> takes the pixel of row \<open>y\<close> and column \<open>x\<close> for
  \<open>0 \<le> x < cols\<close> and \<open>0 \<le> y < rows\<close>, the border row 0 and column 0 included; every
  other cell keeps its flag.
\<close>

lemma defineBounds_isBoundAt:
  "isBoundAt x y (defineBoundsFromImage s img) =
     (if 0 \<le> x \<and> x < cols img \<and> 0 \<le> y \<and> y < rows img then 0 < mat_at img y x
      else isBoundAt x y s)"
  by (auto simp: defineBoundsFromImage_def isBoundAt_def fold_boundFromPixel_bounds
      set_loopCells)

lemma defineBounds_frame:
  "horzVelocity (defineBoundsFromImage s img) = horzVelocity s"
  "vertVelocity (defineBoundsFromImage s img) = vertVelocity s"
  "densityGrid (defineBoundsFromImage s img) = densityGrid s"
  by (simp_all add: defineBoundsFromImage_def fold_boundFromPixel_frame)

text \<open>
  Claim C1 (fails on the code). The claim: after \<^verbatim>\<open>defineBoundsFromImage\<close> every
  interior cell \<open>(x, y)\<close>, \<open>1 \<le> x, y \<le> N\<close>, is a boundary exactly if its pixel is
  positive, and no velocity or density changes. On the 128 x 128 mask whose pixels are all
  positive, applied to the freshly reset solver, the interior cell \<open>(128, 128)\<close> is still
  no boundary afterwards, while the border cell \<open>(0, 0)\<close> has become one: the loops write
  the cells \<open>0..127\<close>, without the shift by one that the comment in the source announces.
  Velocity and density are indeed left alone.
\<close>

theorem defineBoundsFromImage_misses_last_row_and_column:
  "rows fullMask = 128 \<and> cols fullMask = 128 \<and>
   0 < mat_at fullMask 127 127 \<and> 0 < mat_at fullMask 128 128 \<and>
   \<not> isBoundAt 128 128 (defineBoundsFromImage (solver initWorld) fullMask) \<and>
   \<not> isBoundAt 1 128 (defineBoundsFromImage (solver initWorld) fullMask) \<and>
   isBoundAt 0 0 (defineBoundsFromImage (solver initWorld) fullMask) \<and>
   isBoundAt 127 127 (defineBoundsFromImage (solver initWorld) fullMask) \<and>
   horzVelocity (defineBoundsFromImage (solver initWorld) fullMask) =
     horzVelocity (solver initWorld) \<and>
   vertVelocity (defineBoundsFromImage (solver initWorld) fullMask) =
     vertVelocity (solver initWorld) \<and>
   densityGrid (defineBoundsFromImage (solver initWorld) fullMask) =
     densityGrid (solver initWorld)"
  unfolding defineBounds_isBoundAt defineBounds_frame
  by (simp add: fullMask_def isBoundAt_def)

subsection \<open>Splash emitters: the loop over the vector\<close>

lemma renderEmittersFrom_drop:
  "i \<le> length e \<Longrightarrow>
   renderEmittersFrom p i e w =
     (case renderPass p (drop i e) w of
        Inl f \<Rightarrow> Inl f
      | Inr (es, w') \<Rightarrow> Inr (take i e @ es, w'))"
proof (induction p i e w rule: renderEmittersFrom.induct)
  case (1 p i e w)
  show ?case
  proof (cases "i < length e")
    case False
    then have "renderEmittersFrom p i e w = Inr (e, w)"
      by (simp add: renderEmittersFrom.simps [of p i e w])
    moreover from False "1.prems" have "drop i e = []" and "take i e = e"
      by simp_all
    ultimately show ?thesis by simp
  next
    case lt: True
    then have d: "drop i e = e ! i # drop (Suc i) e"
      by (simp add: Cons_nth_drop_Suc)
    show ?thesis
    proof (cases "emitterHasExpired (e ! i)")
      case True
      let ?e' = "take i e @ drop (Suc i) e"
      have len: "i \<le> length ?e'" using lt by simp
      have "renderEmittersFrom p i e w = renderEmittersFrom p i ?e' w"
        using lt True by (simp add: renderEmittersFrom.simps [of p i e w])
      also have "\<dots> = (case renderPass p (drop i ?e') w of
          Inl f \<Rightarrow> Inl f | Inr (es, w') \<Rightarrow> Inr (take i ?e' @ es, w'))"
        using "1.IH"(1) [OF lt True len] .
      also have "drop i ?e' = drop (Suc i) e" using lt by simp
      also have "take i ?e' = take i e" using lt by simp
      finally show ?thesis using True by (simp add: d)
    next
      case False
      show ?thesis
      proof (cases "lifescalar (e ! i)")
        case (Inl f)
        then show ?thesis
          using lt False by (simp add: renderEmittersFrom.simps [of p i e w] d)
      next
        case (Inr ls)
        let ?ei = "(e ! i)\<lparr>life_elapsed := int32 (life_elapsed (e ! i) + 1)\<rparr>"
        let ?e' = "e[i := ?ei]"
        let ?w1 = "injectEmitter p (e ! i) ls w"
        have len: "Suc i \<le> length ?e'" using lt by simp
        have "renderEmittersFrom p i e w = renderEmittersFrom p (Suc i) ?e' ?w1"
          using lt False Inr by (simp add: renderEmittersFrom.simps [of p i e w])
        also have "\<dots> = (case renderPass p (drop (Suc i) ?e') ?w1 of
            Inl f \<Rightarrow> Inl f | Inr (es, w') \<Rightarrow> Inr (take (Suc i) ?e' @ es, w'))"
          using "1.IH"(2) [OF lt False Inr len] .
        also have "drop (Suc i) ?e' = drop (Suc i) e" by simp
        also have "take (Suc i) ?e' = take i e @ [?ei]"
          using lt by (simp add: take_Suc_conv_app_nth)
        finally show ?thesis
          using False Inr by (simp add: d split: sum.splits prod.splits)
      qed
    qed
  qed
qed

lemma renderEmitters_eq [simp]: "renderEmitters p e w = renderPass p e w"
proof -
  have "renderEmittersFrom p 0 e w =
      (case renderPass p (drop 0 e) w of
         Inl f \<Rightarrow> Inl f
       | Inr (es, w') \<Rightarrow> Inr (take 0 e @ es, w'))"
    by (rule renderEmittersFrom_drop) simp
  then show ?thesis
    by (simp add: renderEmitters_def split: sum.splits)
qed

subsection \<open>Splash emitters: where the injection writes\<close>






lemma onSolver_fields [simp]:
  "N (onSolver p f w) = N w"
  "source (onSolver p f w) = source w"
  "force (onSolver p f w) = force w"
  "useUserSolver (onSolver p f w) = useUserSolver w"
  "emitters (onSolver p f w) = emitters w"
  "usersMatrixResize (onSolver p f w) = usersMatrixResize w"
  "iterations (onSolver p f w) = iterations w"
  by (simp_all add: onSolver_def split: solverRef.splits)

lemma injectCell_fields [simp]:
  "N (injectCell p e ls c w) = N w"
  "source (injectCell p e ls c w) = source w"
  "useUserSolver (injectCell p e ls c w) = useUserSolver w"
  "emitters (injectCell p e ls c w) = emitters w"
  "iterations (injectCell p e ls c w) = iterations w"
  by (cases c; simp add: injectCell_def Let_def)+


lemma fold_injectCell_fields [simp]:
  "N (fold (injectCell p e ls) cs w) = N w"
  "source (fold (injectCell p e ls) cs w) = source w"
  "useUserSolver (fold (injectCell p e ls) cs w) = useUserSolver w"
  "emitters (fold (injectCell p e ls) cs w) = emitters w"
  "iterations (fold (injectCell p e ls) cs w) = iterations w"
  by (induction cs arbitrary: w; simp)+


lemma injectEmitter_fields [simp]:
  "N (injectEmitter p e ls w) = N w"
  "source (injectEmitter p e ls w) = source w"
  "useUserSolver (injectEmitter p e ls w) = useUserSolver w"
  "emitters (injectEmitter p e ls w) = emitters w"
  "iterations (injectEmitter p e ls w) = iterations w"
  by (simp_all add: injectEmitter_def)


lemma renderPass_fields:
  "renderPass p es w = Inr (es', w') \<Longrightarrow>
   N w' = N w \<and> source w' = source w \<and> useUserSolver w' = useUserSolver w \<and> emitters w' = emitters w"
  by (induction es arbitrary: w es' w') (auto split: if_splits sum.splits prod.splits)

lemma renderPass_iterations:
  "renderPass p es w = Inr (es', w') \<Longrightarrow> iterations w' = iterations w"
  by (induction es arbitrary: w es' w') (auto split: if_splits sum.splits prod.splits)


lemma renderPass_survivors:
  "renderPass p es w = Inr (es', w') \<Longrightarrow>
   es' = map (\<lambda>e. e\<lparr>life_elapsed := int32 (life_elapsed e + 1)\<rparr>)
           (filter (\<lambda>e. \<not> emitterHasExpired e) es)"
  by (induction es arbitrary: w es' w') (auto split: if_splits sum.splits prod.splits)

lemma lifescalar_positive_lifespan:
  "0 < lifespan e \<Longrightarrow> \<exists>ls. lifescalar e = Inr ls"
  by (simp add: lifescalar_def Let_def)

lemma renderPass_total:
  "list_all (\<lambda>e. 0 < lifespan e) es \<Longrightarrow> \<exists>es' w'. renderPass p es w = Inr (es', w')"
proof (induction es arbitrary: w)
  case Nil
  then show ?case by simp
next
  case (Cons e es)
  from Cons.prems have hd: "0 < lifespan e" and tl: "list_all (\<lambda>e. 0 < lifespan e) es"
    by simp_all
  show ?case
  proof (cases "emitterHasExpired e")
    case True
    then show ?thesis using Cons.IH [OF tl] by simp
  next
    case False
    from lifescalar_positive_lifespan [OF hd] obtain ls where ls: "lifescalar e = Inr ls"
      by blast
    obtain es' w' where "renderPass p es (injectEmitter p e ls w) = Inr (es', w')"
      using Cons.IH [OF tl] by blast
    with ls False show ?thesis by simp
  qed
qed

lemma renderEmitters_total:
  "list_all (\<lambda>e. 0 < lifespan e) es \<Longrightarrow> \<exists>es' w'. renderEmitters p es w = Inr (es', w')"
  by (simp add: renderPass_total)









subsection \<open>Splash emitters: temporal falloff\<close>

lemma emitterDensity_zero [simp]: "emitterDensity src e 0 x y = 0"
  by (simp add: emitterDensity_def)

lemma injectCell_zero_density:
  "densityGrid (solver (injectCell p e 0 c w)) = densityGrid (solver w)"
  "densityGrid (base (userSolver (injectCell p e 0 c w))) = densityGrid (base (userSolver w))"
  "userDensity (userSolver (injectCell p e 0 c w)) = userDensity (userSolver w)"
  by (cases c; cases p; simp add: injectCell_def Let_def onSolver_def addHorzVelocityAt_def
      addVertVelocityAt_def addDensityAt_def addUserDensityAt_def)+

lemma injectEmitter_zero_density:
  "densityGrid (solver (injectEmitter p e 0 w)) = densityGrid (solver w)"
  "densityGrid (base (userSolver (injectEmitter p e 0 w))) = densityGrid (base (userSolver w))"
  "userDensity (userSolver (injectEmitter p e 0 w)) = userDensity (userSolver w)"
proof -
  have "densityGrid (solver (fold (injectCell p e 0) cs w)) = densityGrid (solver w) \<and>
    densityGrid (base (userSolver (fold (injectCell p e 0) cs w))) = densityGrid (base (userSolver w)) \<and>
    userDensity (userSolver (fold (injectCell p e 0) cs w)) = userDensity (userSolver w)" for cs
    by (induction cs arbitrary: w) (simp_all add: injectCell_zero_density)
  then show
    "densityGrid (solver (injectEmitter p e 0 w)) = densityGrid (solver w)"
    "densityGrid (base (userSolver (injectEmitter p e 0 w))) = densityGrid (base (userSolver w))"
    "userDensity (userSolver (injectEmitter p e 0 w)) = userDensity (userSolver w)"
    by (simp_all add: injectEmitter_def)
qed

lemma young_difference:
  "0 \<le> life_elapsed e \<Longrightarrow> life_elapsed e < lifespan e \<Longrightarrow> lifespan e \<le> INT_MAX \<Longrightarrow>
   int32 (lifespan e - life_elapsed e) = lifespan e - life_elapsed e"
  by (rule int32_id) (simp_all add: INT_MIN_def INT_MAX_def)

lemma young_alive:
  "0 \<le> life_elapsed e \<Longrightarrow> life_elapsed e < lifespan e \<Longrightarrow> lifespan e \<le> INT_MAX \<Longrightarrow>
   \<not> emitterHasExpired e"
  by (simp add: emitterHasExpired_def young_difference)

lemma young_increment:
  "0 \<le> life_elapsed e \<Longrightarrow> life_elapsed e < lifespan e \<Longrightarrow> lifespan e \<le> INT_MAX \<Longrightarrow>
   int32 (life_elapsed e + 1) = life_elapsed e + 1"
  by (rule int32_id) (simp_all add: INT_MIN_def INT_MAX_def)

lemma lifescalar_step:
  "0 < life_elapsed e \<Longrightarrow> life_elapsed e < lifespan e \<Longrightarrow> lifespan e \<le> INT_MAX \<Longrightarrow>
   lifescalar e = Inr 0"
  by (simp add: lifescalar_def Let_def young_difference signed_divide_int_def div_pos_pos_trivial)

lemma lifescalar_birth:
  "0 < lifespan e \<Longrightarrow> lifespan e \<le> INT_MAX \<Longrightarrow> life_elapsed e = 0 \<Longrightarrow> lifescalar e = Inr 1"
  using young_difference [of e]
  by (simp add: lifescalar_def Let_def signed_divide_int_def sgn_if)

lemma renderPass_single:
  "\<not> emitterHasExpired e \<Longrightarrow> lifescalar e = Inr ls \<Longrightarrow>
   renderPass p [e] w =
     Inr ([e\<lparr>life_elapsed := int32 (life_elapsed e + 1)\<rparr>], injectEmitter p e ls w)"
  by simp

subsection \<open>Splash emitters: life of an emitter\<close>



lemma injectCell_density_single:
  "\<not> useUserSolver w \<Longrightarrow>
   densityGrid (solver (injectCell SolverPtr e ls c w)) c' =
     (if c' = c then densityGrid (solver w) c + emitterDensity (source w) e ls (fst c) (snd c)
      else densityGrid (solver w) c')"
  by (cases c) (simp add: injectCell_def Let_def onSolver_def addHorzVelocityAt_def
      addVertVelocityAt_def addDensityAt_def)

lemma fold_injectCell_density_single:
  "\<not> useUserSolver w \<Longrightarrow> distinct cs \<Longrightarrow>
   densityGrid (solver (fold (injectCell SolverPtr e ls) cs w)) c =
     (if c \<in> set cs then densityGrid (solver w) c + emitterDensity (source w) e ls (fst c) (snd c)
      else densityGrid (solver w) c)"
  by (induction cs arbitrary: w) (auto simp: injectCell_density_single)

lemma injectEmitter_density_single:
  "\<not> useUserSolver w \<Longrightarrow>
   densityGrid (solver (injectEmitter SolverPtr e ls w)) c =
     (if c \<in> set (emitterCells (N w) e)
      then densityGrid (solver w) c + emitterDensity (source w) e ls (fst c) (snd c)
      else densityGrid (solver w) c)"
  by (simp add: injectEmitter_def fold_injectCell_density_single emitterCells_def distinct_loopCells)





lemma renderTicks_Suc_right:
  "renderTicks k p es w = Inr (es1, w1) \<Longrightarrow> renderTicks (Suc k) p es w = renderPass p es1 w1"
proof (induction k arbitrary: es w)
  case 0
  then show ?case by (auto split: sum.splits prod.splits)
next
  case (Suc k)
  from Suc.prems obtain es' w' where
    a: "renderPass p es w = Inr (es', w')" and b: "renderTicks k p es' w' = Inr (es1, w1)"
    by (auto split: sum.splits prod.splits)
  have "renderTicks (Suc (Suc k)) p es w = renderTicks (Suc k) p es' w'"
    using a by simp
  also have "\<dots> = renderPass p es1 w1"
    using b by (rule Suc.IH)
  finally show ?case .
qed


lemma scenario_cells:
  "set (emitterCells 128 (scenarioEmitter\<lparr>life_elapsed := k\<rparr>)) =
     {(x, y). 61 \<le> x \<and> x \<le> 67 \<and> 7 \<le> y \<and> y \<le> 13}"
  by (simp add: emitterCells_def lowerCoord_def upperCoord_def scenarioEmitter_def
      float_to_int_def INT_MIN_def INT_MAX_def set_loopCells)

lemma renderTicks_young:
  "0 < life_elapsed e \<Longrightarrow> life_elapsed e + int k \<le> lifespan e \<Longrightarrow> lifespan e \<le> INT_MAX \<Longrightarrow>
   \<exists>w'. renderTicks k p [e] w = Inr ([e\<lparr>life_elapsed := life_elapsed e + int k\<rparr>], w') \<and>
        densityGrid (solver w') = densityGrid (solver w) \<and>
        userDensity (userSolver w') = userDensity (userSolver w)"
proof (induction k arbitrary: e w)
  case 0
  then show ?case by simp
next
  case (Suc k)
  let ?e1 = "e\<lparr>life_elapsed := life_elapsed e + 1\<rparr>"
  let ?w1 = "injectEmitter p e 0 w"
  from Suc.prems have ls: "lifescalar e = Inr 0"
    by (intro lifescalar_step) simp_all
  from Suc.prems have alive: "\<not> emitterHasExpired e"
    by (intro young_alive) simp_all
  from Suc.prems have inc: "int32 (life_elapsed e + 1) = life_elapsed e + 1"
    by (intro young_increment) simp_all
  from ls alive inc have one: "renderPass p [e] w = Inr ([?e1], ?w1)"
    by simp
  from Suc.prems have "0 < life_elapsed ?e1" "life_elapsed ?e1 + int k \<le> lifespan ?e1"
    "lifespan ?e1 \<le> INT_MAX"
    by simp_all
  from Suc.IH [OF this, of ?w1] obtain w' where
    r: "renderTicks k p [?e1] ?w1 = Inr ([?e1\<lparr>life_elapsed := life_elapsed ?e1 + int k\<rparr>], w')"
    and d: "densityGrid (solver w') = densityGrid (solver ?w1)"
      "userDensity (userSolver w') = userDensity (userSolver ?w1)"
    by blast
  have "?e1\<lparr>life_elapsed := life_elapsed ?e1 + int k\<rparr> =
      e\<lparr>life_elapsed := life_elapsed e + int (Suc k)\<rparr>"
    by simp
  with r one d show ?case
    by (simp add: injectEmitter_zero_density)
qed

lemma renderTicks_step:
  "renderPass p es w = Inr (es', w') \<Longrightarrow> renderTicks (Suc k) p es w = renderTicks k p es' w'"
  by simp

lemma scenario_first_pass:
  "renderPass SolverPtr [scenarioEmitter] initWorld =
     Inr ([scenarioEmitter\<lparr>life_elapsed := 1\<rparr>], injectEmitter SolverPtr scenarioEmitter 1 initWorld)"
proof -
  have "lifescalar scenarioEmitter = Inr 1"
    by (rule lifescalar_birth) (simp_all add: scenarioEmitter_def INT_MAX_def)
  moreover have "\<not> emitterHasExpired scenarioEmitter"
    by (simp add: emitterHasExpired_def scenarioEmitter_def)
  moreover have "scenarioEmitter\<lparr>life_elapsed := int32 (life_elapsed scenarioEmitter + 1)\<rparr> =
      scenarioEmitter\<lparr>life_elapsed := 1\<rparr>"
    by (simp add: scenarioEmitter_def)
  ultimately show ?thesis
    by simp
qed

lemma scenario_life:
  "(\<exists>w'. renderTicks 6 SolverPtr [scenarioEmitter] initWorld =
           Inr ([scenarioEmitter\<lparr>life_elapsed := 6\<rparr>], w') \<and>
         densityGrid (solver w') (67, 10) = 10 \<and> densityGrid (solver w') (64, 10) = 0) \<and>
   (\<exists>w'. renderTicks 7 SolverPtr [scenarioEmitter] initWorld = Inr ([], w'))"
proof -
  let ?e1 = "scenarioEmitter\<lparr>life_elapsed := 1\<rparr>"
  let ?w1 = "injectEmitter SolverPtr scenarioEmitter 1 initWorld"
  have same: "scenarioEmitter\<lparr>life_elapsed := 0\<rparr> = scenarioEmitter"
    by (simp add: scenarioEmitter_def)
  note one = scenario_first_pass
  have d1: "densityGrid (solver ?w1) (67, 10) = 10" "densityGrid (solver ?w1) (64, 10) = 0"
    using scenario_cells [of 0]
    by (simp_all add: injectEmitter_density_single same)
      (simp_all add: emitterDensity_def dscalar_def vscalar_def uscalar_def scenarioEmitter_def)
  have "0 < life_elapsed ?e1" "life_elapsed ?e1 + int 5 \<le> lifespan ?e1" "lifespan ?e1 \<le> INT_MAX"
    by (simp_all add: scenarioEmitter_def INT_MAX_def)
  from renderTicks_young [OF this, of SolverPtr ?w1] obtain w' where
    r: "renderTicks 5 SolverPtr [?e1] ?w1 = Inr ([scenarioEmitter\<lparr>life_elapsed := 6\<rparr>], w')"
    and d: "densityGrid (solver w') = densityGrid (solver ?w1)"
    by (auto simp: scenarioEmitter_def)
  have n6: "(6::nat) = Suc 5" and n7: "(7::nat) = Suc 6"
    by simp_all
  have six: "renderTicks 6 SolverPtr [scenarioEmitter] initWorld =
      Inr ([scenarioEmitter\<lparr>life_elapsed := 6\<rparr>], w')"
    unfolding n6 using renderTicks_step [OF one, of 5] r by (simp only:)
  have "renderTicks (Suc 6) SolverPtr [scenarioEmitter] initWorld =
      renderPass SolverPtr [scenarioEmitter\<lparr>life_elapsed := 6\<rparr>] w'"
    using six by (rule renderTicks_Suc_right)
  also have "\<dots> = Inr ([], w')"
    by (simp add: emitterHasExpired_def scenarioEmitter_def)
  finally have seven: "renderTicks 7 SolverPtr [scenarioEmitter] initWorld = Inr ([], w')"
    unfolding n7 .
  from six d d1 seven show ?thesis by auto
qed

text \<open>
  Claim C2 (fails on the code). The claim: the injected density is
  \<open>source * densityScalar * lifeScalar\<close> with \<open>lifeScalar = (lifespan - elapsed) /
  lifespan\<close> falling off linearly, small but positive in the final active frame and
  strictly decreasing from tick to tick. The quotient is an integer division: for the
  scenario's emitter (lifespan 6, radius 3, centre \<open>(64, 10)\<close>, source 20) the density
  injected at cell \<open>(67, 10)\<close> over its six active frames is 10, 0, 0, 0, 0, 0, and the
  pass over the emitter in its final frame (\<open>life_elapsed = 5\<close>) leaves the whole density
  field unchanged. Run from the start-up state, the six passes leave density 10 at that
  cell, all of it from the first pass, and the seventh pass erases the emitter.
\<close>

theorem renderEmitters_falloff_is_a_step:
  "map (\<lambda>k. densityInjected 20 (scenarioEmitter\<lparr>life_elapsed := k\<rparr>) 67 10) [0, 1, 2, 3, 4, 5] =
     [Inr 10, Inr 0, Inr 0, Inr 0, Inr 0, Inr 0] \<and>
   (case renderEmitters SolverPtr [scenarioEmitter\<lparr>life_elapsed := 5\<rparr>] initWorld of
      Inl f \<Rightarrow> False
    | Inr (es, w') \<Rightarrow> es = [scenarioEmitter\<lparr>life_elapsed := 6\<rparr>] \<and>
        densityGrid (solver w') = densityGrid (solver initWorld)) \<and>
   (\<exists>w'. renderTicks 6 SolverPtr [scenarioEmitter] initWorld =
           Inr ([scenarioEmitter\<lparr>life_elapsed := 6\<rparr>], w') \<and>
         densityGrid (solver w') (67, 10) = 10 \<and> densityGrid (solver w') (64, 10) = 0) \<and>
   (\<exists>w'. renderTicks 7 SolverPtr [scenarioEmitter] initWorld = Inr ([], w'))"
proof -
  have ls: "lifescalar (scenarioEmitter\<lparr>life_elapsed := k\<rparr>) = Inr 0" if "0 < k" "k < 6" for k
    using that by (intro lifescalar_step) (simp_all add: scenarioEmitter_def INT_MAX_def)
  have ls0: "lifescalar (scenarioEmitter\<lparr>life_elapsed := 0\<rparr>) = Inr 1"
    by (rule lifescalar_birth) (simp_all add: scenarioEmitter_def INT_MAX_def)
  have d0: "emitterDensity 20 (scenarioEmitter\<lparr>life_elapsed := 0\<rparr>) 1 67 10 = 10"
    by (simp add: emitterDensity_def dscalar_def vscalar_def uscalar_def scenarioEmitter_def)
  have r: "renderEmitters SolverPtr [scenarioEmitter\<lparr>life_elapsed := 5\<rparr>] initWorld =
      Inr ([scenarioEmitter\<lparr>life_elapsed := 6\<rparr>],
           injectEmitter SolverPtr (scenarioEmitter\<lparr>life_elapsed := 5\<rparr>) 0 initWorld)"
    using ls [of 5] by (simp add: scenarioEmitter_def emitterHasExpired_def)
  have "map (\<lambda>k. densityInjected 20 (scenarioEmitter\<lparr>life_elapsed := k\<rparr>) 67 10)
      [0, 1, 2, 3, 4, 5] = [Inr 10, Inr 0, Inr 0, Inr 0, Inr 0, Inr 0] \<and>
    (case renderEmitters SolverPtr [scenarioEmitter\<lparr>life_elapsed := 5\<rparr>] initWorld of
       Inl f \<Rightarrow> False
     | Inr (es, w') \<Rightarrow> es = [scenarioEmitter\<lparr>life_elapsed := 6\<rparr>] \<and>
         densityGrid (solver w') = densityGrid (solver initWorld))"
    unfolding r by (simp add: densityInjected_def ls ls0 d0 injectEmitter_zero_density)
  with scenario_life show ?thesis
    by blast
qed


text \<open>
  Past the 32-bit range the counter wraps around: the emitter with lifespan \<open>INT_MIN\<close>
  and \<open>life_elapsed = INT_MAX\<close> is overdue, survives one pass, and is erased by the
  second.
\<close>

lemma wrappingEmitter_removed:
  "lifespan wrappingEmitter < life_elapsed wrappingEmitter \<and>
   (\<exists>w'. renderTicks 2 SolverPtr [wrappingEmitter] initWorld = Inr ([], w'))"
proof -
  let ?e1 = "wrappingEmitter\<lparr>life_elapsed := INT_MIN\<rparr>"
  have alive: "\<not> emitterHasExpired wrappingEmitter"
    by (simp add: emitterHasExpired_def wrappingEmitter_def int32_def INT_MIN_def INT_MAX_def)
  have ls: "lifescalar wrappingEmitter = Inr 0"
    by (simp add: lifescalar_def Let_def wrappingEmitter_def int32_def INT_MIN_def INT_MAX_def
        signed_divide_int_def)
  have inc: "int32 (life_elapsed wrappingEmitter + 1) = INT_MIN"
    by (simp add: wrappingEmitter_def int32_def INT_MIN_def INT_MAX_def)
  from alive ls inc have one: "renderPass SolverPtr [wrappingEmitter] initWorld =
      Inr ([?e1], injectEmitter SolverPtr wrappingEmitter 0 initWorld)"
    by simp
  have gone: "emitterHasExpired ?e1"
    by (simp add: emitterHasExpired_def wrappingEmitter_def)
  have n2: "(2::nat) = Suc (Suc 0)"
    by simp
  have "renderTicks 2 SolverPtr [wrappingEmitter] initWorld =
      Inr ([], injectEmitter SolverPtr wrappingEmitter 0 initWorld)"
    unfolding n2 using one gone by simp
  moreover have "lifespan wrappingEmitter < life_elapsed wrappingEmitter"
    by (simp add: wrappingEmitter_def INT_MIN_def INT_MAX_def)
  ultimately show ?thesis
    by blast
qed




subsection \<open>Splash emitters: spawning\<close>

lemma velocityEmissionThreshold_zero: "velocityEmissionThreshold = 0"
proof -
  have "\<lceil>- (1 / 20) :: real\<rceil> = 0"
    by (rule ceiling_unique) simp_all
  then show ?thesis
    by (simp add: velocityEmissionThreshold_def float_to_int_def INT_MIN_def INT_MAX_def)
qed

lemma createEmitterAt_fields [simp]:
  "deref p (createEmitterAt cx cy fu fv l r u w) = deref p w"
  "useUserSolver (createEmitterAt cx cy fu fv l r u w) = useUserSolver w"
  "usersMatrixResize (createEmitterAt cx cy fu fv l r u w) = usersMatrixResize w"
  "N (createEmitterAt cx cy fu fv l r u w) = N w"
  by (simp_all add: createEmitterAt_def deref_def split: solverRef.splits)

lemma splashAt_fields [simp]:
  "deref p (splashAt p fm c w) = deref p w"
  "useUserSolver (splashAt p fm c w) = useUserSolver w"
  "usersMatrixResize (splashAt p fm c w) = usersMatrixResize w"
  "N (splashAt p fm c w) = N w"
  by (cases c; simp add: splashAt_def Let_def)+

lemma splashAt_emitters:
  "set (emitters (splashAt p fm c w)) = set (emitters w) \<union>
     {e. \<not> isBoundAt (fst c) (snd c) (deref p w) \<and> isBoundAt (fst c) (snd c + 1) (deref p w) \<and>
         snd (mat_at fm (fst c) (snd c)) < 0 \<and>
         e = \<lparr>center = (real_of_int (fst c), real_of_int (snd c - 1)),
               vel = ((8 / 10) * fst (mat_at fm (fst c) (snd c)),
                      (8 / 10) * snd (mat_at fm (fst c) (snd c))),
               lifespan = 6, life_elapsed = 0, radius = 3,
               userNo = (if useUserSolver w then uint (mat_at (usersMatrixResize w) (fst c) (snd c + 1))
                         else 1)\<rparr>}"
  by (cases c) (auto simp: splashAt_def Let_def velocityEmissionThreshold_zero createEmitterAt_def)

lemma fold_splashAt_emitters:
  "set (emitters (fold (splashAt p fm) cs w)) = set (emitters w) \<union>
     {e. \<exists>c \<in> set cs. \<not> isBoundAt (fst c) (snd c) (deref p w) \<and> isBoundAt (fst c) (snd c + 1) (deref p w) \<and>
         snd (mat_at fm (fst c) (snd c)) < 0 \<and>
         e = \<lparr>center = (real_of_int (fst c), real_of_int (snd c - 1)),
               vel = ((8 / 10) * fst (mat_at fm (fst c) (snd c)),
                      (8 / 10) * snd (mat_at fm (fst c) (snd c))),
               lifespan = 6, life_elapsed = 0, radius = 3,
               userNo = (if useUserSolver w then uint (mat_at (usersMatrixResize w) (fst c) (snd c + 1))
                         else 1)\<rparr>}"
proof (induction cs arbitrary: w)
  case Nil
  then show ?case by simp
next
  case (Cons c cs)
  show ?case
    unfolding fold_simps Cons.IH splashAt_fields splashAt_emitters
    by auto
qed

lemma fold_splashAt_N [simp]: "N (fold (splashAt p fm) cs w) = N w"
  by (induction cs arbitrary: w) simp_all

lemma fold_splashAt_useFlow [simp]: "useFlow (fold (splashAt p fm) cs w) = useFlow w"
proof -
  have "useFlow (splashAt p fm c v) = useFlow v" for c v
    by (cases c) (simp add: splashAt_def Let_def createEmitterAt_def)
  then show ?thesis
    by (induction cs arbitrary: w) simp_all
qed

lemma spawned_lifespan:
  "e \<in> set (emitters (fold (splashAt p fm) cs w)) \<Longrightarrow> e \<in> set (emitters w) \<or> lifespan e = 6"
  unfolding fold_splashAt_emitters by auto

text \<open>
  Claim C3 (fails on the code). The claim: at a transition from a free cell in row \<open>j\<close>
  to a solid one in row \<open>j + 1\<close> inside the splash band, an emitter is spawned exactly if
  the vertical flow is more negative than \<open>-0.05\<close>; it sits in row \<open>j - 1\<close> with lifespan
  6, radius 3 and 0.8 times the flow vector as velocity. The threshold variable is an
  \<^verbatim>\<open>int\<close>, so it holds 0. With the single solid cell \<open>(5, 11)\<close> and a flow of
  \<open>(1/2, -1/100)\<close> everywhere, the vertical flow \<open>-0.01\<close> is not below \<open>-0.05\<close>, yet the
  spawn pass creates the emitter at \<open>(5, 9)\<close> with velocity \<open>(0.4, -0.008)\<close>, lifespan 6
  and radius 3, and the whole call of \<^verbatim>\<open>emitSplashes\<close> returns with that emitter in the
  pool, one frame old.
\<close>

theorem emitSplashes_spawns_below_threshold:
  "velocityEmissionThreshold = 0 \<and>
   \<not> isBoundAt 5 10 (deref SolverPtr oneSolidCell) \<and> isBoundAt 5 11 (deref SolverPtr oneSolidCell) \<and>
   mat_at driftFlow 5 10 = (1 / 2, - (1 / 100)) \<and>
   mat_at driftFlow 10 5 = (1 / 2, - (1 / 100)) \<and>
   \<not> snd (mat_at driftFlow 5 10) < - (5 / 100) \<and>
   emitters oneSolidCell = [] \<and>
   \<lparr>center = (5, 9), vel = (4 / 10, - (8 / 1000)), lifespan = 6, life_elapsed = 0, radius = 3,
     userNo = 1\<rparr> \<in> set (emitters (spawnSplashes SolverPtr driftFlow oneSolidCell)) \<and>
   (\<exists>w'. emitSplashes SolverPtr driftFlow oneSolidCell = Inr w' \<and>
      \<lparr>center = (5, 9), vel = (4 / 10, - (8 / 1000)), lifespan = 6, life_elapsed = 1, radius = 3,
        userNo = 1\<rparr> \<in> set (emitters w'))"
proof -
  let ?e = "\<lparr>center = (5, 9), vel = (4 / 10, - (8 / 1000)), lifespan = 6, life_elapsed = 0,
     radius = 3, userNo = 1\<rparr> :: Emitter"
  let ?w1 = "spawnSplashes SolverPtr driftFlow oneSolidCell"
  have facts: "velocityEmissionThreshold = 0 \<and>
     \<not> isBoundAt 5 10 (deref SolverPtr oneSolidCell) \<and> isBoundAt 5 11 (deref SolverPtr oneSolidCell) \<and>
     mat_at driftFlow 5 10 = (1 / 2, - (1 / 100)) \<and>
     mat_at driftFlow 10 5 = (1 / 2, - (1 / 100)) \<and>
     \<not> snd (mat_at driftFlow 5 10) < - (5 / 100) \<and>
     emitters oneSolidCell = []"
    by (simp add: velocityEmissionThreshold_zero oneSolidCell_def deref_def isBoundAt_def
        setBoundAt_def driftFlow_def)
  have mem: "?e \<in> set (emitters ?w1)"
    unfolding spawnSplashes_def fold_splashAt_emitters
    by (simp add: set_loopCells oneSolidCell_def deref_def isBoundAt_def
        setBoundAt_def driftFlow_def NUM_SPLASH_ROWS_def)
  have "lifespan e = 6" if "e \<in> set (emitters ?w1)" for e
    using that spawned_lifespan [of e SolverPtr driftFlow _ oneSolidCell] facts
    by (simp add: spawnSplashes_def)
  then have "list_all (\<lambda>e. 0 < lifespan e) (emitters ?w1)"
    by (simp add: list_all_iff)
  then obtain es w2 where r: "renderEmitters SolverPtr (emitters ?w1) ?w1 = Inr (es, w2)"
    using renderEmitters_total by blast
  then have "es = map (\<lambda>e. e\<lparr>life_elapsed := int32 (life_elapsed e + 1)\<rparr>)
      (filter (\<lambda>e. \<not> emitterHasExpired e) (emitters ?w1))"
    using renderPass_survivors [of SolverPtr "emitters ?w1" ?w1 es w2] by simp
  moreover have "\<not> emitterHasExpired ?e"
    by (simp add: emitterHasExpired_def)
  ultimately have "?e\<lparr>life_elapsed := int32 (life_elapsed ?e + 1)\<rparr> \<in> set es"
    using mem by force
  then have in_es: "\<lparr>center = (5, 9), vel = (4 / 10, - (8 / 1000)), lifespan = 6, life_elapsed = 1,
      radius = 3, userNo = 1\<rparr> \<in> set es"
    by simp
  have "useFlow oneSolidCell"
    by (simp add: oneSolidCell_def)
  then have "emitSplashes SolverPtr driftFlow oneSolidCell = Inr (w2\<lparr>emitters := es\<rparr>)"
    using r by (simp add: emitSplashes_def Let_def del: renderEmitters_eq)
  with in_es have "\<exists>w'. emitSplashes SolverPtr driftFlow oneSolidCell = Inr w' \<and>
      \<lparr>center = (5, 9), vel = (4 / 10, - (8 / 1000)), lifespan = 6, life_elapsed = 1, radius = 3,
        userNo = 1\<rparr> \<in> set (emitters w')"
    by simp
  with facts mem show ?thesis by blast
qed

subsection \<open>Emitter pool size\<close>

lemma createEmitterAt_length:
  "length (emitters (createEmitterAt cx cy fu fv l r u w)) = Suc (length (emitters w))"
  by (simp add: createEmitterAt_def)

lemma createEmitterAt_funpow_length:
  "length (emitters ((createEmitterAt cx cy fu fv l r u ^^ k) w)) = length (emitters w) + k"
  by (induction k) (simp_all add: createEmitterAt_length)

lemma renderPass_length:
  "renderPass p es w = Inr (es', w') \<Longrightarrow> length es' \<le> length es"
  by (drule renderPass_survivors) simp

text \<open>
  Claim C6, as stated, fails: 201 spawns from the empty pool of the start-up state give a
  pool of 201 emitters, more than \<^verbatim>\<open>MAX_EMITTERS\<close>.
\<close>

theorem emitter_pool_exceeds_MAX_EMITTERS:
  "length (emitters ((createEmitterAt 64 10 1 (- 2) 6 3 1 ^^ 201) initWorld)) = 201 \<and>
   int 201 > MAX_EMITTERS"
  by (simp add: createEmitterAt_funpow_length MAX_EMITTERS_def)

text \<open>
  Claim C6, amended. The pool has no capacity limit: \<^verbatim>\<open>createEmitterAt\<close> appends the
  new emitter whatever the size of the pool and keeps all the old ones, so \<open>k\<close> spawns
  make it \<open>k\<close> longer; \<^verbatim>\<open>renderEmitters\<close> never makes it longer. (The start-up code
  itself builds a pool of 400: the 200 elements the vector is constructed with and the
  200 placeholders of \<^verbatim>\<open>allocateData\<close>.)
\<close>

theorem createEmitterAt_always_appends:
  "emitters (createEmitterAt cx cy fu fv l r u w) =
     emitters w @ [\<lparr>center = (real_of_int cx, real_of_int cy), vel = (fu, fv), lifespan = l,
                      life_elapsed = 0, radius = r, userNo = u\<rparr>] \<and>
   length (emitters (createEmitterAt cx cy fu fv l r u w)) = Suc (length (emitters w)) \<and>
   length (emitters ((createEmitterAt cx cy fu fv l r u ^^ k) w)) = length (emitters w) + k \<and>
   (renderEmitters p es w = Inr (es', w') \<longrightarrow> length es' \<le> length es)"
  by (simp add: createEmitterAt_length createEmitterAt_funpow_length renderPass_length)
    (simp add: createEmitterAt_def)

theorem createEmitterAt_always_appends_witness:
  "length (emitters ((createEmitterAt 64 10 1 (- 2) 6 3 1 ^^ 300) initWorld)) = 300 \<and>
   (\<exists>es' w'. renderEmitters SolverPtr [scenarioEmitter, scenarioEmitter\<lparr>life_elapsed := 6\<rparr>]
        initWorld = Inr (es', w') \<and> length es' \<le> 2)"
proof -
  have "list_all (\<lambda>e. 0 < lifespan e)
      [scenarioEmitter, scenarioEmitter\<lparr>life_elapsed := 6\<rparr>]"
    by (simp add: scenarioEmitter_def)
  then obtain es' w' where
    r: "renderEmitters SolverPtr [scenarioEmitter, scenarioEmitter\<lparr>life_elapsed := 6\<rparr>]
          initWorld = Inr (es', w')"
    using renderEmitters_total by blast
  note t = createEmitterAt_always_appends [of 64 10 1 "- 2" 6 3 1 initWorld 300 SolverPtr
      "[scenarioEmitter, scenarioEmitter\<lparr>life_elapsed := 6\<rparr>]" es' w']
  from t have "length (emitters ((createEmitterAt 64 10 1 (- 2) 6 3 1 ^^ 300) initWorld)) = 300"
    by simp
  moreover from t r have "length es' \<le> 2"
    by simp
  ultimately show ?thesis using r by blast
qed

subsection \<open>Mode state machine\<close>

lemma counter_increment:
  "0 \<le> v \<Longrightarrow> v \<le> 1000 \<Longrightarrow> int32 (v + 1) = v + 1"
  by (rule int32_id) (simp_all add: INT_MIN_def INT_MAX_def)

lemma clearData_fields [simp]:
  "iterations (clearData w) = iterations w"
  "mode (clearData w) = mode w"
  "autoChangeMode (clearData w) = autoChangeMode w"
  "emitters (clearData w) = []"
  "cout (clearData w) = cout w"
  by (simp_all add: clearData_def)

lemma changeMode_iterations: "iterations (changeMode newMode w) = iterations w"
  by (simp add: changeMode_def Let_def)

lemma changeMode_mode: "mode (changeMode newMode w) = newMode"
  by (simp add: changeMode_def Let_def)

lemma tryChangeMode_counting:
  "0 \<le> iterations w \<Longrightarrow> iterations w \<le> iterations_per_mode \<Longrightarrow>
   tryChangeMode w = w\<lparr>iterations := iterations w + 1\<rparr>"
  by (simp add: tryChangeMode_def iterations_per_mode_def counter_increment)

lemma tryChangeMode_funpow:
  "iterations w = 0 \<Longrightarrow> k \<le> 501 \<Longrightarrow> (tryChangeMode ^^ k) w = w\<lparr>iterations := int k\<rparr>"
proof (induction k)
  case 0
  then show ?case by simp
next
  case (Suc k)
  then have "(tryChangeMode ^^ k) w = w\<lparr>iterations := int k\<rparr>" by simp
  moreover have "iterations (w\<lparr>iterations := int k\<rparr>) \<le> iterations_per_mode"
    using Suc.prems by (simp add: iterations_per_mode_def)
  ultimately show ?case
    by (simp add: tryChangeMode_counting)
qed

lemma tryChangeMode_fires:
  "autoChangeMode w \<Longrightarrow> iterations w > iterations_per_mode \<Longrightarrow> 0 \<le> mode w \<Longrightarrow>
   mode w \<le> 1000 \<Longrightarrow> tryChangeMode w = changeMode 0 (w\<lparr>iterations := 0, mode := 0\<rparr>)"
  by (simp add: tryChangeMode_def Let_def max_mode_def counter_increment)

text \<open>
  Claim C4 (fails on the code). The claim: with automatic cycling on and the threshold at
  500, 501 ticks from counter 0 advance the mode exactly once, to the next mode, and
  reset the counter. In the code the test \<open>iterations > 500\<close> comes before the increment:
  after 501 calls of \<^verbatim>\<open>tryChangeMode\<close> the counter is 501, the mode is unchanged and
  nothing was printed. The transition happens in call 502, and since \<^verbatim>\<open>max_mode\<close> is 0
  it leads to mode 0 from mode 0 as well as from mode 2.
\<close>

theorem tryChangeMode_no_transition_in_501_ticks:
  "(tryChangeMode ^^ 501) autoWorld = autoWorld\<lparr>iterations := 501\<rparr> \<and>
   mode ((tryChangeMode ^^ 501) autoWorld) = mode autoWorld \<and>
   cout ((tryChangeMode ^^ 501) autoWorld) = [] \<and>
   mode ((tryChangeMode ^^ 502) autoWorld) = 0 \<and>
   iterations ((tryChangeMode ^^ 502) autoWorld) = 0 \<and>
   cout ((tryChangeMode ^^ 502) autoWorld) = [''Changing to mode 0: Single color density''] \<and>
   mode ((tryChangeMode ^^ 502) (autoWorld\<lparr>mode := 2\<rparr>)) = 0"
proof -
  have a: "(tryChangeMode ^^ 501) (autoWorld\<lparr>mode := m\<rparr>) =
      autoWorld\<lparr>mode := m, iterations := 501\<rparr>" for m
    using tryChangeMode_funpow [of "autoWorld\<lparr>mode := m\<rparr>" 501] by (simp add: autoWorld_def)
  have a0: "(tryChangeMode ^^ 501) autoWorld = autoWorld\<lparr>iterations := 501\<rparr>"
    using tryChangeMode_funpow [of "autoWorld" 501] by (simp add: autoWorld_def)
  have s: "(tryChangeMode ^^ 502) v = tryChangeMode ((tryChangeMode ^^ 501) v)" for v
  proof -
    have "(502::nat) = Suc 501" by simp
    then show ?thesis by (simp only: funpow.simps o_apply)
  qed
  have f: "tryChangeMode (autoWorld\<lparr>mode := m, iterations := 501\<rparr>) =
      changeMode 0 (autoWorld\<lparr>mode := m, iterations := 0, mode := 0\<rparr>)"
    if "0 \<le> m" "m \<le> 1000" for m
    using that tryChangeMode_fires [of "autoWorld\<lparr>mode := m, iterations := 501\<rparr>"]
    by (simp add: autoWorld_def iterations_per_mode_def)
  have f0: "tryChangeMode (autoWorld\<lparr>iterations := 501\<rparr>) =
      changeMode 0 (autoWorld\<lparr>iterations := 0, mode := 0\<rparr>)"
    using tryChangeMode_fires [of "autoWorld\<lparr>iterations := 501\<rparr>"]
    by (simp add: autoWorld_def iterations_per_mode_def)
  show ?thesis
    unfolding s a a0
    by (simp add: f f0 changeMode_mode changeMode_iterations)
      (simp add: changeMode_def autoWorld_def)
qed

lemma createEmitterAt_iterations:
  "iterations (createEmitterAt cx cy fu fv l r u w) = iterations w"
  by (simp add: createEmitterAt_def)

lemma allocateData_iterations: "iterations (allocateData w) = iterations w"
  by (simp add: allocateData_def)

lemma computeOpticalFlow_iterations:
  "iterations (computeOpticalFlow farneback p w) = iterations w"
  by (simp add: computeOpticalFlow_def Let_def split: option.splits)

lemma splashAt_iterations: "iterations (splashAt p fm c w) = iterations w"
  by (cases c) (simp add: splashAt_def Let_def createEmitterAt_def)

lemma fold_splashAt_iterations: "iterations (fold (splashAt p fm) cs w) = iterations w"
  by (induction cs arbitrary: w) (simp_all add: splashAt_iterations)

lemma edgeImpulseAt_iterations: "iterations (edgeImpulseAt p c w) = iterations w"
  by (cases c) (simp add: edgeImpulseAt_def Let_def)

lemma fold_edgeImpulseAt_iterations: "iterations (fold (edgeImpulseAt p) cs w) = iterations w"
  by (induction cs arbitrary: w) (simp_all add: edgeImpulseAt_iterations)

lemma emitSplashes_iterations:
  "emitSplashes p fm w = Inr w' \<Longrightarrow> iterations w' = iterations w"
proof (cases "useFlow w")
  case True
  assume r: "emitSplashes p fm w = Inr w'"
  let ?w1 = "spawnSplashes p fm w"
  from r True obtain es w2 where
    p: "renderPass p (emitters ?w1) ?w1 = Inr (es, w2)" and w': "w' = w2\<lparr>emitters := es\<rparr>"
    by (auto simp: emitSplashes_def Let_def split: sum.splits prod.splits)
  from p have "iterations w2 = iterations ?w1"
    by (rule renderPass_iterations)
  then show ?thesis
    by (simp add: w' spawnSplashes_def fold_splashAt_iterations)
next
  case False
  assume "emitSplashes p fm w = Inr w'"
  with False show ?thesis
    by (auto simp: emitSplashes_def fold_edgeImpulseAt_iterations)
qed

lemma key_func_iterations:
  "key \<noteq> CHR 0x1B \<Longrightarrow> map_option iterations (key_func key w) = Some (iterations w)"
  by (simp add: key_func_def changeMode_iterations)

lemma tryChangeMode_iterations:
  "iterations (tryChangeMode w) =
     (if autoChangeMode w \<and> iterations w > iterations_per_mode then 0
      else int32 (iterations w + 1))"
  by (simp add: tryChangeMode_def Let_def changeMode_iterations)

text \<open>
  Claim C5, as stated, fails: with the counter at 7, the key \<^verbatim>\<open>'3'\<close> (that is
  \<^verbatim>\<open>changeMode(2)\<close>) leaves it at 7.
\<close>

theorem manual_transition_keeps_counter:
  "map_option iterations (key_func CHR ''3'' (initWorld\<lparr>iterations := 7\<rparr>)) = Some 7 \<and>
   iterations (changeMode 2 (initWorld\<lparr>iterations := 7\<rparr>)) \<noteq> 0"
  by (simp add: key_func_def changeMode_iterations)

text \<open>
  Claim C5, amended. \<^verbatim>\<open>changeMode\<close> never assigns the frame counter: a manual
  transition, by any of the keys 1 to 4 and from any counter value, leaves it as it is.
  So does every other key (the escape key ends the process), and so do \<^verbatim>\<open>clearData\<close>,
  \<^verbatim>\<open>allocateData\<close>, \<^verbatim>\<open>createEmitterAt\<close>, \<^verbatim>\<open>computeOpticalFlow\<close>, \<^verbatim>\<open>emitSplashes\<close>
  and \<^verbatim>\<open>renderEmitters\<close>. Only \<^verbatim>\<open>tryChangeMode\<close> assigns it: it sets the counter to 0
  if automatic cycling is on and the counter exceeds \<^verbatim>\<open>iterations_per_mode\<close>, and in
  every other case, automatic cycling off included, it increments the 32-bit counter.
\<close>

theorem changeMode_leaves_counter:
  "iterations (changeMode newMode w) = iterations w \<and>
   map_option iterations (key_func CHR ''1'' w) = Some (iterations w) \<and>
   map_option iterations (key_func CHR ''2'' w) = Some (iterations w) \<and>
   map_option iterations (key_func CHR ''3'' w) = Some (iterations w) \<and>
   map_option iterations (key_func CHR ''4'' w) = Some (iterations w) \<and>
   (autoChangeMode w \<and> iterations w > iterations_per_mode \<longrightarrow>
      iterations (tryChangeMode w) = 0) \<and>
   (\<not> (autoChangeMode w \<and> iterations w > iterations_per_mode) \<longrightarrow>
      iterations (tryChangeMode w) = int32 (iterations w + 1)) \<and>
   (key \<noteq> CHR 0x1B \<longrightarrow> map_option iterations (key_func key w) = Some (iterations w)) \<and>
   key_func (CHR 0x1B) w = None \<and>
   iterations (clearData w) = iterations w \<and>
   iterations (allocateData w) = iterations w \<and>
   iterations (createEmitterAt cx cy fu fv l r u w) = iterations w \<and>
   iterations (computeOpticalFlow farneback p w) = iterations w \<and>
   (emitSplashes p fm w = Inr w1 \<longrightarrow> iterations w1 = iterations w) \<and>
   (renderEmitters p es w = Inr (es', w2) \<longrightarrow> iterations w2 = iterations w)"
proof -
  have keys: "map_option iterations (key_func k w) = Some (iterations w)"
    if "k \<noteq> CHR 0x1B" for k
    using that by (rule key_func_iterations)
  have esc: "key_func (CHR 0x1B) w = None"
    by (simp add: key_func_def)
  have splash: "iterations w1 = iterations w" if "emitSplashes p fm w = Inr w1"
    using that by (rule emitSplashes_iterations)
  have render: "iterations w2 = iterations w" if "renderEmitters p es w = Inr (es', w2)"
    using that renderPass_iterations [of p es w es' w2] by simp
  show ?thesis
    using keys [of "CHR ''1''"] keys [of "CHR ''2''"] keys [of "CHR ''3''"] keys [of "CHR ''4''"]
      keys [of key] esc splash render
    by (simp add: changeMode_iterations tryChangeMode_iterations createEmitterAt_iterations
        allocateData_iterations computeOpticalFlow_iterations)
qed

theorem changeMode_leaves_counter_witness:
  "iterations (changeMode 1 (autoWorld\<lparr>iterations := 501\<rparr>)) = 501 \<and>
   map_option iterations (key_func CHR ''4'' (autoWorld\<lparr>iterations := 501\<rparr>)) = Some 501 \<and>
   map_option iterations (key_func CHR ''c'' (autoWorld\<lparr>iterations := 501\<rparr>)) = Some 501 \<and>
   autoChangeMode (autoWorld\<lparr>iterations := 501\<rparr>) \<and>
   iterations (tryChangeMode (autoWorld\<lparr>iterations := 501\<rparr>)) = 0 \<and>
   iterations (tryChangeMode (autoWorld\<lparr>iterations := 500\<rparr>)) = 501 \<and>
   \<not> autoChangeMode (initWorld\<lparr>iterations := 501\<rparr>) \<and>
   iterations (tryChangeMode (initWorld\<lparr>iterations := 501\<rparr>)) = 502 \<and>
   (\<exists>w1. emitSplashes SolverPtr driftFlow (autoWorld\<lparr>iterations := 501, useFlow := False\<rparr>) =
            Inr w1 \<and> iterations w1 = 501) \<and>
   (\<exists>es' w2. renderEmitters SolverPtr [scenarioEmitter] (autoWorld\<lparr>iterations := 501\<rparr>) =
            Inr (es', w2) \<and> iterations w2 = 501)"
proof -
  let ?w = "autoWorld\<lparr>iterations := 501\<rparr>"
  let ?v = "autoWorld\<lparr>iterations := 501, useFlow := False\<rparr>"
  have "list_all (\<lambda>e. 0 < lifespan e) [scenarioEmitter]"
    by (simp add: scenarioEmitter_def)
  then obtain es' w2 where r: "renderEmitters SolverPtr [scenarioEmitter] ?w = Inr (es', w2)"
    using renderEmitters_total by blast
  obtain w1 where s: "emitSplashes SolverPtr driftFlow ?v = Inr w1"
    by (simp add: emitSplashes_def)
  have i502: "int32 502 = 502" and i501: "int32 501 = 501"
    by (simp_all add: int32_def)
  from changeMode_leaves_counter
    [of 1 ?w "CHR ''c''" 64 10 1 "- 2" 6 3 1 unitFarneback SolverPtr driftFlow w1
      "[scenarioEmitter]" es' w2] r
  have a: "iterations (changeMode 1 ?w) = 501 \<and>
      map_option iterations (key_func CHR ''4'' ?w) = Some 501 \<and>
      map_option iterations (key_func CHR ''c'' ?w) = Some 501 \<and>
      autoChangeMode ?w \<and> iterations (tryChangeMode ?w) = 0 \<and> iterations w2 = 501"
    by (simp add: autoWorld_def iterations_per_mode_def)
  from changeMode_leaves_counter
    [of 1 "autoWorld\<lparr>iterations := 500\<rparr>" "CHR ''c''" 64 10 1 "- 2" 6 3 1 unitFarneback
      SolverPtr driftFlow w1 "[]" "[]" w2]
  have b: "iterations (tryChangeMode (autoWorld\<lparr>iterations := 500\<rparr>)) = 501"
    by (simp add: autoWorld_def iterations_per_mode_def i501)
  from changeMode_leaves_counter
    [of 1 "initWorld\<lparr>iterations := 501\<rparr>" "CHR ''c''" 64 10 1 "- 2" 6 3 1 unitFarneback
      SolverPtr driftFlow w1 "[]" "[]" w2]
  have c: "\<not> autoChangeMode (initWorld\<lparr>iterations := 501\<rparr>) \<and>
      iterations (tryChangeMode (initWorld\<lparr>iterations := 501\<rparr>)) = 502"
    by (simp add: i502)
  from changeMode_leaves_counter
    [of 1 ?v "CHR ''c''" 64 10 1 "- 2" 6 3 1 unitFarneback SolverPtr driftFlow w1
      "[]" "[]" w2] s
  have d: "iterations w1 = 501"
    by simp
  from a b c d r s show ?thesis
    by blast
qed

subsection \<open>Flow force translator\<close>

lemma flowForceAt_horz:
  "horzVelocity (flowForceAt fl c s) c' =
     (if c' = c then horzVelocity s c + FLOW_SCALAR * fst (mat_at fl (snd c) (fst c))
      else horzVelocity s c')"
  by (cases c) (simp add: flowForceAt_def Let_def addHorzVelocityAt_def addVertVelocityAt_def)

lemma flowForceAt_vert:
  "vertVelocity (flowForceAt fl c s) c' =
     (if c' = c then vertVelocity s c + FLOW_SCALAR * snd (mat_at fl (snd c) (fst c))
      else vertVelocity s c')"
  by (cases c) (simp add: flowForceAt_def Let_def addHorzVelocityAt_def addVertVelocityAt_def)

lemma flowForceAt_frame:
  "bounds (flowForceAt fl c s) = bounds s"
  "densityGrid (flowForceAt fl c s) = densityGrid s"
  by (cases c; simp add: flowForceAt_def Let_def addHorzVelocityAt_def addVertVelocityAt_def)+

lemma fold_flowForceAt_horz:
  "distinct cs \<Longrightarrow> horzVelocity (fold (flowForceAt fl) cs s) c =
     (if c \<in> set cs then horzVelocity s c + FLOW_SCALAR * fst (mat_at fl (snd c) (fst c))
      else horzVelocity s c)"
  by (induction cs arbitrary: s) (auto simp: flowForceAt_horz)

lemma fold_flowForceAt_vert:
  "distinct cs \<Longrightarrow> vertVelocity (fold (flowForceAt fl) cs s) c =
     (if c \<in> set cs then vertVelocity s c + FLOW_SCALAR * snd (mat_at fl (snd c) (fst c))
      else vertVelocity s c)"
  by (induction cs arbitrary: s) (auto simp: flowForceAt_vert)

lemma fold_flowForceAt_frame:
  "bounds (fold (flowForceAt fl) cs s) = bounds s"
  "densityGrid (fold (flowForceAt fl) cs s) = densityGrid s"
  by (induction cs arbitrary: s; simp add: flowForceAt_frame)+

lemma computeOpticalFlow_deref:
  "prevFlowImg w = Some prev \<Longrightarrow>
   deref p (computeOpticalFlow farneback p w) =
     fold (flowForceAt (farneback prev (flowImg w))) (loopCells 1 (N w - 1) 1 (N w - 1)) (deref p w)"
  by (cases p) (simp_all add: computeOpticalFlow_def Let_def deref_def onSolver_def)

lemma computeOpticalFlow_flow:
  "prevFlowImg w = Some prev \<Longrightarrow> flow (computeOpticalFlow farneback p w) = farneback prev (flowImg w)"
  by (cases p) (simp_all add: computeOpticalFlow_def Let_def onSolver_def)

lemma computeOpticalFlow_no_density:
  "densityGrid (solver (computeOpticalFlow farneback p w)) = densityGrid (solver w)"
  "densityGrid (base (userSolver (computeOpticalFlow farneback p w))) = densityGrid (base (userSolver w))"
  "userDensity (userSolver (computeOpticalFlow farneback p w)) = userDensity (userSolver w)"
  "bounds (solver (computeOpticalFlow farneback p w)) = bounds (solver w)"
  "bounds (base (userSolver (computeOpticalFlow farneback p w))) = bounds (base (userSolver w))"
  by (cases p; simp add: computeOpticalFlow_def Let_def onSolver_def fold_flowForceAt_frame
      split: option.splits)+

lemma computeOpticalFlow_first_frame:
  "prevFlowImg w = None \<Longrightarrow> computeOpticalFlow farneback p w = w\<lparr>prevFlowImg := flowImg w, flowImg := None\<rparr>"
  by (simp add: computeOpticalFlow_def)

lemma secondFrame_fields [simp]:
  "prevFlowImg secondFrame = Some fullMask" "flowImg secondFrame = Some fullMask"
  "N secondFrame = 128" "horzVelocity (solver secondFrame) = (\<lambda>c. 0)"
  "vertVelocity (solver secondFrame) = (\<lambda>c. 0)"
  by (simp_all add: secondFrame_def initWorld_def allocateData_def startWorld_def clearData_def
      reset_def N_DEF_def)

text \<open>
  Claim C7, as stated, fails: in the second frame of the start-up world (\<open>N = 128\<close>, a
  previous frame exists), with an estimator that reports the flow \<open>(1, 1)\<close> everywhere,
  the interior cell \<open>(128, 128)\<close> keeps its horizontal velocity instead of gaining
  \<open>FLOW_SCALAR * 1\<close>.
\<close>

theorem computeOpticalFlow_skips_row_and_column_N:
  "prevFlowImg secondFrame \<noteq> None \<and> N secondFrame = 128 \<and>
   mat_at (flow (computeOpticalFlow unitFarneback SolverPtr secondFrame)) 128 128 = (1, 1) \<and>
   mat_at (flow (computeOpticalFlow unitFarneback SolverPtr secondFrame)) 127 127 = (1, 1) \<and>
   horzVelocity (deref SolverPtr (computeOpticalFlow unitFarneback SolverPtr secondFrame)) (128, 128)
     = horzVelocity (deref SolverPtr secondFrame) (128, 128) \<and>
   horzVelocity (deref SolverPtr secondFrame) (128, 128) \<noteq>
     horzVelocity (deref SolverPtr secondFrame) (128, 128) + FLOW_SCALAR * 1"
  by (simp add: computeOpticalFlow_deref computeOpticalFlow_flow fold_flowForceAt_horz
      distinct_loopCells set_loopCells unitFarneback_def FLOW_SCALAR_def)

text \<open>
  Claim C7, amended. When a previous frame exists, \<^verbatim>\<open>computeOpticalFlow\<close> adds, for
  every cell \<open>(x, y)\<close> with \<open>1 \<le> x, y \<le> N - 1\<close>, \<open>FLOW_SCALAR\<close> times the flow vector
  read at row \<open>y\<close>, column \<open>x\<close> to the horizontal and to the vertical velocity the cell
  has (the flow is the estimator's, from the previous and the current frame); every other
  cell, row \<open>N\<close> and column \<open>N\<close> of the interior among them, keeps its velocity. No
  density and no boundary flag of either solver is written.
\<close>

theorem computeOpticalFlow_adds_scaled_flow:
  assumes "prevFlowImg w = Some prev"
  shows "flow (computeOpticalFlow farneback p w) = farneback prev (flowImg w) \<and>
    horzVelocity (deref p (computeOpticalFlow farneback p w)) (x, y) =
      (if 1 \<le> x \<and> x \<le> N w - 1 \<and> 1 \<le> y \<and> y \<le> N w - 1
       then horzVelocity (deref p w) (x, y) + FLOW_SCALAR * fst (mat_at (farneback prev (flowImg w)) y x)
       else horzVelocity (deref p w) (x, y)) \<and>
    vertVelocity (deref p (computeOpticalFlow farneback p w)) (x, y) =
      (if 1 \<le> x \<and> x \<le> N w - 1 \<and> 1 \<le> y \<and> y \<le> N w - 1
       then vertVelocity (deref p w) (x, y) + FLOW_SCALAR * snd (mat_at (farneback prev (flowImg w)) y x)
       else vertVelocity (deref p w) (x, y)) \<and>
    densityGrid (solver (computeOpticalFlow farneback p w)) = densityGrid (solver w) \<and>
    densityGrid (base (userSolver (computeOpticalFlow farneback p w))) = densityGrid (base (userSolver w)) \<and>
    userDensity (userSolver (computeOpticalFlow farneback p w)) = userDensity (userSolver w) \<and>
    bounds (solver (computeOpticalFlow farneback p w)) = bounds (solver w) \<and>
    bounds (base (userSolver (computeOpticalFlow farneback p w))) = bounds (base (userSolver w))"
  using assms
  by (simp add: computeOpticalFlow_deref computeOpticalFlow_flow computeOpticalFlow_no_density
      fold_flowForceAt_horz fold_flowForceAt_vert distinct_loopCells set_loopCells)

theorem computeOpticalFlow_adds_scaled_flow_witness:
  "horzVelocity (deref SolverPtr (computeOpticalFlow unitFarneback SolverPtr secondFrame)) (127, 1) = 1 / 10 \<and>
   vertVelocity (deref SolverPtr (computeOpticalFlow unitFarneback SolverPtr secondFrame)) (127, 1) = 1 / 10 \<and>
   horzVelocity (deref SolverPtr (computeOpticalFlow unitFarneback SolverPtr secondFrame)) (128, 1) = 0"
  using computeOpticalFlow_adds_scaled_flow [of secondFrame fullMask unitFarneback SolverPtr 127 1]
    computeOpticalFlow_adds_scaled_flow [of secondFrame fullMask unitFarneback SolverPtr 128 1]
  by (simp add: deref_def unitFarneback_def FLOW_SCALAR_def)

subsection \<open>Multi-user compositor\<close>

lemma getWeightedColor_fields:
  "R (getWeightedColor x y w) = (\<Sum>i = 0..<6. palette w ! i ! 0 * getUserDensityAt (int i) x y (userSolver w))"
  "G (getWeightedColor x y w) = (\<Sum>i = 0..<6. palette w ! i ! 1 * getUserDensityAt (int i) x y (userSolver w))"
  "B (getWeightedColor x y w) = (\<Sum>i = 0..<6. palette w ! i ! 2 * getUserDensityAt (int i) x y (userSolver w))"
  by (simp_all add: getWeightedColor_def MAX_USERS_def blendUser_def palette_def Let_def
      upto.simps eval_nat_numeral)

lemma sum_single:
  fixes f :: "nat \<Rightarrow> real"
  assumes "u < n" and "\<And>i. i < n \<Longrightarrow> i \<noteq> u \<Longrightarrow> g i = 0"
  shows "(\<Sum>i = 0..<n. f i * g i) = f u * g u"
proof -
  have "(\<Sum>i = 0..<n. f i * g i) = (\<Sum>i \<in> {0..<n}. if i = u then f u * g u else 0)"
    by (rule sum.cong) (use assms in auto)
  also have "\<dots> = f u * g u"
    using assms(1) by simp
  finally show ?thesis .
qed

lemma oneUserWorld_density:
  "getUserDensityAt user 3 4 (userSolver oneUserWorld) = (if user = 1 then 1 / 2 else 0)"
  by (simp add: oneUserWorld_def getUserDensityAt_def addUserDensityAt_def)

text \<open>
  Claim C9. For every cell, \<^verbatim>\<open>getWeightedColor\<close> returns, channel by channel, the sum
  over the \<^verbatim>\<open>MAX_USERS\<close> = 6 user slots of the palette entry of the slot times the
  slot's density at the cell, neither clamped nor renormalised. When one slot \<open>u\<close> alone
  has a non-zero density there, the result is the palette entry of \<open>u\<close> times that
  density.
\<close>

theorem getWeightedColor_weighted_sum:
  "getWeightedColor x y w =
     \<lparr>R = (\<Sum>i = 0..<6. palette w ! i ! 0 * getUserDensityAt (int i) x y (userSolver w)),
      G = (\<Sum>i = 0..<6. palette w ! i ! 1 * getUserDensityAt (int i) x y (userSolver w)),
      B = (\<Sum>i = 0..<6. palette w ! i ! 2 * getUserDensityAt (int i) x y (userSolver w))\<rparr> \<and>
   (u < 6 \<and> (\<forall>i. i < 6 \<and> i \<noteq> u \<longrightarrow> getUserDensityAt (int i) x y (userSolver w) = 0) \<longrightarrow>
    getWeightedColor x y w =
      \<lparr>R = palette w ! u ! 0 * getUserDensityAt (int u) x y (userSolver w),
       G = palette w ! u ! 1 * getUserDensityAt (int u) x y (userSolver w),
       B = palette w ! u ! 2 * getUserDensityAt (int u) x y (userSolver w)\<rparr>)"
proof -
  have full: "getWeightedColor x y w =
     \<lparr>R = (\<Sum>i = 0..<6. palette w ! i ! 0 * getUserDensityAt (int i) x y (userSolver w)),
      G = (\<Sum>i = 0..<6. palette w ! i ! 1 * getUserDensityAt (int i) x y (userSolver w)),
      B = (\<Sum>i = 0..<6. palette w ! i ! 2 * getUserDensityAt (int i) x y (userSolver w))\<rparr>"
    by (rule RGBType.equality) (simp_all add: getWeightedColor_fields)
  moreover have "getWeightedColor x y w =
      \<lparr>R = palette w ! u ! 0 * getUserDensityAt (int u) x y (userSolver w),
       G = palette w ! u ! 1 * getUserDensityAt (int u) x y (userSolver w),
       B = palette w ! u ! 2 * getUserDensityAt (int u) x y (userSolver w)\<rparr>"
    if "u < 6" and "\<forall>i. i < 6 \<and> i \<noteq> u \<longrightarrow> getUserDensityAt (int i) x y (userSolver w) = 0"
    unfolding full using that by (simp add: sum_single)
  ultimately show ?thesis by blast
qed

theorem getWeightedColor_weighted_sum_witness:
  "getUserDensityAt 1 3 4 (userSolver oneUserWorld) = 1 / 2 \<and>
   palette oneUserWorld ! 1 = [0, 1, 1] \<and>
   getWeightedColor 3 4 oneUserWorld = \<lparr>R = 0, G = 1 / 2, B = 1 / 2\<rparr>"
proof -
  have h: "(1::nat) < 6 \<and>
      (\<forall>i. i < 6 \<and> i \<noteq> 1 \<longrightarrow> getUserDensityAt (int i) 3 4 (userSolver oneUserWorld) = 0)"
    by (simp add: oneUserWorld_density)
  have pal: "palette oneUserWorld = Colors"
    by (simp add: palette_def oneUserWorld_def initWorld_def allocateData_def
        startWorld_def clearData_def)
  from getWeightedColor_weighted_sum [of 3 4 oneUserWorld 1] h
  have "getWeightedColor 3 4 oneUserWorld =
      \<lparr>R = palette oneUserWorld ! 1 ! 0 * getUserDensityAt (int 1) 3 4 (userSolver oneUserWorld),
       G = palette oneUserWorld ! 1 ! 1 * getUserDensityAt (int 1) 3 4 (userSolver oneUserWorld),
       B = palette oneUserWorld ! 1 ! 2 * getUserDensityAt (int 1) 3 4 (userSolver oneUserWorld)\<rparr>"
    by blast
  then show ?thesis
    by (simp add: pal Colors_def oneUserWorld_density)
qed

end
